theory Spec2Isabelle
  imports Main "HOL-Library.AList"
begin

section \<open>JavaScript containers\<close>

text \<open>
  A JavaScript \<open>Map\<close> keeps its entries in insertion order and holds every key once:
  \<open>set\<close> replaces the value of a key that is present, in place, and appends a new key;
  \<open>delete\<close> drops the key. It is modelled as an association list with
  \<open>map_of\<close> for \<open>get\<close>, \<open>AList.update\<close> for \<open>set\<close> and \<open>AList.delete\<close> for
  \<open>delete\<close>. A \<open>Set\<close> of strings is a list without repetition, in insertion order.
\<close>

definition set_add :: "'a \<Rightarrow> 'a list \<Rightarrow> 'a list" where
  "set_add x xs = (if x \<in> set xs then xs else xs @ [x])"

definition set_delete :: "'a \<Rightarrow> 'a list \<Rightarrow> 'a list" where
  "set_delete x xs = removeAll x xs"

definition set_size :: "'a list \<Rightarrow> nat" where
  "set_size xs = length xs"

text \<open>
  Truthiness of a value of type \<open>string | null\<close>: \<open>null\<close> and the empty string are
  falsy.
\<close>

fun truthy :: "string option \<Rightarrow> bool" where
  "truthy None = False"
| "truthy (Some s) = (s \<noteq> [])"

section \<open>The connection manager (services/lsp/lsp-connection-manager.ts)\<close>

record LspConnection =
  serverId :: string
  language :: string
  rootPath :: string

text \<open>
  \<open>ServerFileReferences\<close> has the three fields of \<open>LspConnection\<close> and the set of the
  files that use the server.
\<close>

record ServerFileReferences = LspConnection +
  filePaths :: "string list"

record LspConnectionManager =
  connections :: "(string \<times> LspConnection) list"
  serverReferences :: "(string \<times> ServerFileReferences) list"

definition emptyManager :: LspConnectionManager where
  "emptyManager = \<lparr>connections = [], serverReferences = []\<rparr>"

text \<open>The key of a server: \<open>`${rootPath}:${language}`\<close>.\<close>

definition refKey :: "string \<Rightarrow> string \<Rightarrow> string" where
  "refKey root lang = root @ '':'' @ lang"

definition hasConnection :: "string \<Rightarrow> LspConnectionManager \<Rightarrow> bool" where
  "hasConnection filePath m = (map_of (connections m) filePath \<noteq> None)"

definition getConnection :: "string \<Rightarrow> LspConnectionManager \<Rightarrow> LspConnection option" where
  "getConnection filePath m = map_of (connections m) filePath"

definition getConnectionByRoot ::
  "string \<Rightarrow> string \<Rightarrow> LspConnectionManager \<Rightarrow> LspConnection option" where
  "getConnectionByRoot root lang m =
     (case map_of (serverReferences m) (refKey root lang) of
        None \<Rightarrow> None
      | Some refs \<Rightarrow>
          Some \<lparr>serverId = serverId refs, language = language refs, rootPath = rootPath refs\<rparr>)"

text \<open>
  \<open>register\<close> stores the connection of the file, then looks the key up, creates the entry
  of the key when there is none (with the server of this call), and adds the file to the
  set of the entry. The entry is an object held by the map, so the addition is seen
  through the map.
\<close>

definition register ::
  "string \<Rightarrow> string \<Rightarrow> string \<Rightarrow> string \<Rightarrow> LspConnectionManager \<Rightarrow> LspConnectionManager" where
  "register filePath sid lang root m =
     (let conns = AList.update filePath
                    \<lparr>serverId = sid, language = lang, rootPath = root\<rparr> (connections m);
          key = refKey root lang;
          refs = (case map_of (serverReferences m) key of
                    Some r \<Rightarrow> r
                  | None \<Rightarrow> \<lparr>serverId = sid, language = lang, rootPath = root, filePaths = []\<rparr>)
      in \<lparr>connections = conns,
          serverReferences =
            AList.update key (refs\<lparr>filePaths := set_add filePath (filePaths refs)\<rparr>)
              (serverReferences m)\<rparr>)"

text \<open>
  \<open>unregister\<close> returns \<open>false\<close> for a file without a connection. Otherwise it deletes
  the connection and takes the file out of the set of the connection's key; when the set
  is then empty it deletes the entry of the key and returns \<open>true\<close>.
\<close>

definition unregister :: "string \<Rightarrow> LspConnectionManager \<Rightarrow> bool \<times> LspConnectionManager" where
  "unregister filePath m =
     (case map_of (connections m) filePath of
        None \<Rightarrow> (False, m)
      | Some conn \<Rightarrow>
          (let conns = AList.delete filePath (connections m);
               key = refKey (rootPath conn) (language conn)
           in case map_of (serverReferences m) key of
                Some refs \<Rightarrow>
                  (let files = set_delete filePath (filePaths refs);
                       wasLastReference = (set_size files = 0)
                   in if wasLastReference
                      then (True, \<lparr>connections = conns,
                                   serverReferences = AList.delete key (serverReferences m)\<rparr>)
                      else (False, \<lparr>connections = conns,
                                    serverReferences =
                                      AList.update key (refs\<lparr>filePaths := files\<rparr>)
                                        (serverReferences m)\<rparr>))
              | None \<Rightarrow> (False, \<lparr>connections = conns, serverReferences = serverReferences m\<rparr>)))"

text \<open>
  \<open>unregisterServer\<close> collects the files whose connection names the server and deletes
  them one by one, then does the same with the keys whose entry names the server.
\<close>

definition unregisterServer :: "string \<Rightarrow> LspConnectionManager \<Rightarrow> LspConnectionManager" where
  "unregisterServer sid m =
     (let pathsToRemove = map fst (filter (\<lambda>(p, conn). serverId conn = sid) (connections m));
          keysToRemove = map fst (filter (\<lambda>(k, refs). serverId refs = sid) (serverReferences m))
      in \<lparr>connections = foldl (\<lambda>cs p. AList.delete p cs) (connections m) pathsToRemove,
          serverReferences = foldl (\<lambda>rs k. AList.delete k rs) (serverReferences m) keysToRemove\<rparr>)"

definition getAllConnections :: "LspConnectionManager \<Rightarrow> (string \<times> LspConnection) list" where
  "getAllConnections m = connections m"

definition getFileReferenceCount :: "string \<Rightarrow> LspConnectionManager \<Rightarrow> nat" where
  "getFileReferenceCount sid m =
     foldl (\<lambda>count refs. if serverId refs = sid then count + set_size (filePaths refs) else count)
       0 (map snd (serverReferences m))"

definition getFileReferences :: "string \<Rightarrow> LspConnectionManager \<Rightarrow> string list" where
  "getFileReferences sid m =
     foldl (\<lambda>paths refs. if serverId refs = sid then paths @ filePaths refs else paths)
       [] (map snd (serverReferences m))"

definition clear :: "LspConnectionManager \<Rightarrow> LspConnectionManager" where
  "clear m = \<lparr>connections = [], serverReferences = []\<rparr>"


text \<open>
  What the two containers guarantee by themselves: no key of a map and no member of a
  file set is held twice.
\<close>

definition wellFormed :: "LspConnectionManager \<Rightarrow> bool" where
  "wellFormed m =
     (distinct (map fst (connections m)) \<and> distinct (map fst (serverReferences m)) \<and>
      list_all (\<lambda>e. distinct (filePaths (snd e))) (serverReferences m))"

text \<open>
  A server runs for one root and one language. \<open>serversDistinct\<close>: no two reference
  entries name the same server. \<open>serverFree\<close>: no entry under another key than that of
  the root and language names the server; this holds for a server that
  \<open>getConnectionByRoot\<close> has found for the root and language, and for a server that has
  just been started.
\<close>

definition serversDistinct :: "LspConnectionManager \<Rightarrow> bool" where
  "serversDistinct m = distinct (map (\<lambda>e. serverId (snd e)) (serverReferences m))"

definition serverFree :: "string \<Rightarrow> string \<Rightarrow> string \<Rightarrow> LspConnectionManager \<Rightarrow> bool" where
  "serverFree sid root lang m =
     list_all (\<lambda>e. serverId (snd e) = sid \<longrightarrow> fst e = refKey root lang) (serverReferences m)"

section \<open>The diagnostics store (stores/lsp-store.ts)\<close>

text \<open>
  The names of the fields follow the source; a field whose name is taken already, by a
  constant of the library or by a field of another record, carries a short prefix.
\<close>

datatype Severity = SevError | SevWarning | SevInfo | SevHint

record Position =
  line :: nat
  character :: nat

record Range =
  rangeStart :: Position
  rangeEnd :: Position

datatype DiagnosticCode = CodeNumber int | CodeString string

text \<open>
  The \<open>Diagnostic\<close> of the protocol, with the fields that the store and the hook read.
  \<open>severity\<close> and \<open>code\<close> are optional.
\<close>

record Diagnostic =
  severity :: "nat option"
  message :: string
  range :: Range
  code :: "DiagnosticCode option"

record StorePosition =
  spLine :: nat
  spColumn :: nat

record StoreRange =
  srStart :: StorePosition
  srEnd :: StorePosition

record LspDiagnostic =
  ldId :: string
  ldSeverity :: Severity
  ldMessage :: string
  ldRange :: StoreRange
  ldSource :: string
  ldCode :: "string option"

record PendingDownload =
  pdLanguage :: string
  languageDisplayName :: string
  serverName :: string
  pdDownloadUrl :: "string option"

record DiagnosticCounts =
  errors :: int
  warnings :: int
  info :: int
  hints :: int

record LspState =
  enabled :: bool
  showDiagnostics :: bool
  showErrors :: bool
  showWarnings :: bool
  showInfo :: bool
  showHints :: bool
  diagnosticsByFile :: "(string \<times> LspDiagnostic list) list"
  diagnosticsCounts :: DiagnosticCounts
  pendingDownloads :: "PendingDownload list"

text \<open>
  \<open>severityToString\<close> and \<open>uriToFilePath\<close> are imported from
  \<open>services/lsp/lsp-protocol\<close>: the store takes them as parameters. With them comes
  \<open>exponentToString\<close>, which stands for \<open>toString\<close> on the numbers that JavaScript
  prints with an exponent, those of magnitude \<open>1e21\<close> and more.
\<close>

record LspProtocol =
  severityToString :: "nat \<Rightarrow> Severity"
  uriToFilePath :: "string \<Rightarrow> string"
  exponentToString :: "int \<Rightarrow> string"

text \<open>
  Decimal digits of an index, as a template literal prints them: the index of an array
  element is below \<open>2^32\<close>, where a number is printed with all its digits.
\<close>

fun showNat :: "nat \<Rightarrow> string" where
  "showNat n =
     (if n < 10 then [''0123456789'' ! n]
      else showNat (n div 10) @ [''0123456789'' ! (n mod 10)])"

definition showInt :: "int \<Rightarrow> string" where
  "showInt i = (if i < 0 then ''-'' @ showNat (nat (- i)) else showNat (nat i))"

text \<open>
  \<open>d.code?.toString()\<close>: a string is itself; a whole number below \<open>1e21\<close> in magnitude
  is printed with all its digits, a larger one with an exponent.
\<close>

fun codeToString :: "LspProtocol \<Rightarrow> DiagnosticCode \<Rightarrow> string" where
  "codeToString proto (CodeNumber i) =
     (if \<bar>i\<bar> < 10 ^ 21 then showInt i else exponentToString proto i)"
| "codeToString proto (CodeString s) = s"

definition zeroCounts :: DiagnosticCounts where
  "zeroCounts = \<lparr>errors = 0, warnings = 0, info = 0, hints = 0\<rparr>"

text \<open>One round of the loop of \<open>countDiagnostics\<close>, and the loop.\<close>

fun countOne :: "DiagnosticCounts \<Rightarrow> LspDiagnostic \<Rightarrow> DiagnosticCounts" where
  "countOne counts d =
     (case ldSeverity d of
        SevError \<Rightarrow> counts\<lparr>errors := errors counts + 1\<rparr>
      | SevWarning \<Rightarrow> counts\<lparr>warnings := warnings counts + 1\<rparr>
      | SevInfo \<Rightarrow> counts\<lparr>info := info counts + 1\<rparr>
      | SevHint \<Rightarrow> counts\<lparr>hints := hints counts + 1\<rparr>)"

definition countDiagnostics :: "LspDiagnostic list \<Rightarrow> DiagnosticCounts" where
  "countDiagnostics diagnostics = foldl countOne zeroCounts diagnostics"

definition updateCounts ::
  "DiagnosticCounts \<Rightarrow> DiagnosticCounts \<Rightarrow> DiagnosticCounts \<Rightarrow> DiagnosticCounts" where
  "updateCounts current oldFileCounts newFileCounts =
     \<lparr>errors = errors current - errors oldFileCounts + errors newFileCounts,
      warnings = warnings current - warnings oldFileCounts + warnings newFileCounts,
      info = info current - info oldFileCounts + info newFileCounts,
      hints = hints current - hints oldFileCounts + hints newFileCounts\<rparr>"

definition initialLspState :: LspState where
  "initialLspState =
     \<lparr>enabled = True, showDiagnostics = True, showErrors = True, showWarnings = True,
      showInfo = True, showHints = False, diagnosticsByFile = [],
      diagnosticsCounts = \<lparr>errors = 0, warnings = 0, info = 0, hints = 0\<rparr>,
      pendingDownloads = []\<rparr>"

text \<open>\<open>d.severity || 1\<close>: a missing severity and the severity 0 become 1.\<close>

fun severityOr1 :: "nat option \<Rightarrow> nat" where
  "severityOr1 None = 1"
| "severityOr1 (Some n) = (if n = 0 then 1 else n)"

definition toLspDiagnostic :: "LspProtocol \<Rightarrow> string \<Rightarrow> nat \<times> Diagnostic \<Rightarrow> LspDiagnostic" where
  "toLspDiagnostic proto filePath p =
     (case p of (index, d) \<Rightarrow>
        \<lparr>ldId = ''lsp-'' @ filePath @ ''-'' @ showNat index,
         ldSeverity = severityToString proto (severityOr1 (severity d)),
         ldMessage = message d,
         ldRange = \<lparr>srStart = \<lparr>spLine = line (rangeStart (range d)),
                                spColumn = character (rangeStart (range d))\<rparr>,
                    srEnd = \<lparr>spLine = line (rangeEnd (range d)),
                              spColumn = character (rangeEnd (range d))\<rparr>\<rparr>,
         ldSource = ''lsp'',
         ldCode = map_option (codeToString proto) (code d)\<rparr>)"

definition shownBySettings :: "LspState \<Rightarrow> LspDiagnostic \<Rightarrow> bool" where
  "shownBySettings state d =
     (case ldSeverity d of
        SevError \<Rightarrow> showErrors state
      | SevWarning \<Rightarrow> showWarnings state
      | SevInfo \<Rightarrow> showInfo state
      | SevHint \<Rightarrow> showHints state)"

definition setDiagnostics :: "LspProtocol \<Rightarrow> string \<Rightarrow> Diagnostic list \<Rightarrow> LspState \<Rightarrow> LspState" where
  "setDiagnostics proto uri diagnostics state =
     (let filePath = uriToFilePath proto uri;
          lspDiagnostics = map (toLspDiagnostic proto filePath) (enumerate 0 diagnostics);
          filteredDiagnostics = filter (shownBySettings state) lspDiagnostics;
          oldDiagnostics = (case map_of (diagnosticsByFile state) filePath of
                              Some ds \<Rightarrow> ds | None \<Rightarrow> []);
          oldFileCounts = countDiagnostics oldDiagnostics;
          newFileCounts = countDiagnostics filteredDiagnostics;
          byFile = AList.update filePath filteredDiagnostics (diagnosticsByFile state);
          newCounts = updateCounts (diagnosticsCounts state) oldFileCounts newFileCounts
      in state\<lparr>diagnosticsByFile := byFile, diagnosticsCounts := newCounts\<rparr>)"

definition clearDiagnostics :: "LspProtocol \<Rightarrow> string \<Rightarrow> LspState \<Rightarrow> LspState" where
  "clearDiagnostics proto uri state =
     (let filePath = uriToFilePath proto uri
      in case map_of (diagnosticsByFile state) filePath of
           None \<Rightarrow> state
         | Some oldDiagnostics \<Rightarrow>
             (let oldFileCounts = countDiagnostics oldDiagnostics;
                  emptyFileCounts = \<lparr>errors = 0, warnings = 0, info = 0, hints = 0\<rparr>;
                  byFile = AList.delete filePath (diagnosticsByFile state);
                  newCounts = updateCounts (diagnosticsCounts state) oldFileCounts emptyFileCounts
              in state\<lparr>diagnosticsByFile := byFile, diagnosticsCounts := newCounts\<rparr>))"

definition clearAllDiagnostics :: "LspState \<Rightarrow> LspState" where
  "clearAllDiagnostics state =
     state\<lparr>diagnosticsByFile := [],
           diagnosticsCounts := \<lparr>errors = 0, warnings = 0, info = 0, hints = 0\<rparr>\<rparr>"

definition getDiagnostics :: "string \<Rightarrow> LspState \<Rightarrow> LspDiagnostic list" where
  "getDiagnostics filePath state =
     (case map_of (diagnosticsByFile state) filePath of Some ds \<Rightarrow> ds | None \<Rightarrow> [])"

definition addPendingDownload :: "PendingDownload \<Rightarrow> LspState \<Rightarrow> LspState" where
  "addPendingDownload download state =
     (if list_ex (\<lambda>d. pdLanguage d = pdLanguage download) (pendingDownloads state) then state
      else state\<lparr>pendingDownloads := pendingDownloads state @ [download]\<rparr>)"

definition removePendingDownload :: "string \<Rightarrow> LspState \<Rightarrow> LspState" where
  "removePendingDownload lang state =
     state\<lparr>pendingDownloads := filter (\<lambda>d. pdLanguage d \<noteq> lang) (pendingDownloads state)\<rparr>"

text \<open>
  The actions of the store that the properties below range over. The setters of the
  settings change the flag only; what they send to the settings store is not modelled.
\<close>

datatype StoreAction =
    SetDiagnostics string "Diagnostic list"
  | ClearDiagnostics string
  | ClearAllDiagnostics
  | SetEnabled bool
  | SetShowDiagnostics bool
  | SetShowErrors bool
  | SetShowWarnings bool
  | SetShowInfo bool
  | SetShowHints bool

fun act :: "LspProtocol \<Rightarrow> LspState \<Rightarrow> StoreAction \<Rightarrow> LspState" where
  "act proto state (SetDiagnostics uri diagnostics) = setDiagnostics proto uri diagnostics state"
| "act proto state (ClearDiagnostics uri) = clearDiagnostics proto uri state"
| "act proto state ClearAllDiagnostics = clearAllDiagnostics state"
| "act proto state (SetEnabled b) = state\<lparr>enabled := b\<rparr>"
| "act proto state (SetShowDiagnostics b) = state\<lparr>showDiagnostics := b\<rparr>"
| "act proto state (SetShowErrors b) = state\<lparr>showErrors := b\<rparr>"
| "act proto state (SetShowWarnings b) = state\<lparr>showWarnings := b\<rparr>"
| "act proto state (SetShowInfo b) = state\<lparr>showInfo := b\<rparr>"
| "act proto state (SetShowHints b) = state\<lparr>showHints := b\<rparr>"

definition runActions :: "LspProtocol \<Rightarrow> StoreAction list \<Rightarrow> LspState \<Rightarrow> LspState" where
  "runActions proto actions state = foldl (act proto) state actions"

text \<open>
  The counts of all the diagnostics that the store holds, counted afresh: for each
  severity, the number of stored diagnostics of that severity, over all files.
\<close>

definition stored :: "LspState \<Rightarrow> LspDiagnostic list" where
  "stored state = concat (map snd (diagnosticsByFile state))"

definition numberOf :: "Severity \<Rightarrow> LspDiagnostic list \<Rightarrow> int" where
  "numberOf s ds = int (length (filter (\<lambda>d. ldSeverity d = s) ds))"

definition recount :: "LspState \<Rightarrow> DiagnosticCounts" where
  "recount state =
     \<lparr>errors = numberOf SevError (stored state),
      warnings = numberOf SevWarning (stored state),
      info = numberOf SevInfo (stored state),
      hints = numberOf SevHint (stored state)\<rparr>"

text \<open>Field by field sum of two counts, and the counts of all the lists of a map.\<close>

definition plusCounts :: "DiagnosticCounts \<Rightarrow> DiagnosticCounts \<Rightarrow> DiagnosticCounts" where
  "plusCounts a b = \<lparr>errors = errors a + errors b, warnings = warnings a + warnings b,
     info = info a + info b, hints = hints a + hints b\<rparr>"

definition total :: "(string \<times> LspDiagnostic list) list \<Rightarrow> DiagnosticCounts" where
  "total al = countDiagnostics (concat (map snd al))"

text \<open>The invariant of the store: the keys are held once and the counts are the recount.\<close>

definition countsAgree :: "LspState \<Rightarrow> bool" where
  "countsAgree state =
     (distinct (map fst (diagnosticsByFile state)) \<and> diagnosticsCounts state = recount state)"

section \<open>The hook of an editor view (hooks/use-lsp.ts)\<close>

text \<open>
  The hook calls \<open>lspService\<close> (the registry of the servers) and the helpers of
  \<open>services/lsp/lsp-servers\<close>, which are modules of their own. The helpers are
  parameters of the model. The calls to the service and to the connection manager are
  written to a trace, in the order in which the hook makes them, and what the service
  answers is a parameter of the step that receives the answer.
\<close>

datatype Call =
    GetServerStatus string
  | GetConnectionByRoot string string
  | IncrementRefCount string
  | UnregisterServer string
  | StartServer string string
  | Register string string string string
  | Unregister string
  | DecrementRefCount string
  | OpenDocument string string string string
  | ChangeDocument string string string
  | CloseDocument string string

record ServerStatus =
  available :: bool
  canDownload :: bool
  downloadUrl :: "string option"

record ServerConfig =
  name :: string
  command :: string

record LspServers =
  getServerConfig :: "string \<Rightarrow> ServerConfig option"
  getLanguageDisplayName :: "string \<Rightarrow> string"
  getLanguageIdForPath :: "string \<Rightarrow> string option"
  getLspLanguageIdForPath :: "string \<Rightarrow> string option"
  hasLspSupport :: "string \<Rightarrow> bool"

text \<open>What a rejected promise carries: an \<open>Error\<close> with its message, or another value.\<close>

datatype Thrown = JsError string | NotAnError

text \<open>
  The state of one view: the values of \<open>useState\<close>, the refs, and with them the two
  singletons that the hook works on and the trace of its calls. \<open>serverIdState\<close> is the
  state variable \<open>serverId\<close>.
\<close>

record World =
  isConnected :: bool
  isLoading :: bool
  error :: "string option"
  serverIdState :: "string option"
  serverIdRef :: "string option"
  filePathRef :: "string option"
  languageRef :: "string option"
  workspaceRootRef :: "string option"
  isDocumentOpenRef :: bool
  hasIncrementedRefRef :: bool
  manager :: LspConnectionManager
  store :: LspState
  calls :: "Call list"

definition initialWorld :: World where
  "initialWorld =
     \<lparr>isConnected = False, isLoading = False, error = None, serverIdState = None,
      serverIdRef = None, filePathRef = None, languageRef = None, workspaceRootRef = None,
      isDocumentOpenRef = False, hasIncrementedRefRef = False,
      manager = emptyManager, store = initialLspState, calls = []\<rparr>"

definition call :: "Call \<Rightarrow> World \<Rightarrow> World" where
  "call c w = w\<lparr>calls := calls w @ [c]\<rparr>"

text \<open>The string of a value that has been tested to be truthy.\<close>

fun strOf :: "string option \<Rightarrow> string" where
  "strOf None = []"
| "strOf (Some s) = s"

text \<open>\<open>v || d\<close> for strings: \<open>d\<close> replaces a missing and an empty \<open>v\<close>.\<close>

definition orElse :: "string option \<Rightarrow> string \<Rightarrow> string" where
  "orElse v d = (if truthy v then strOf v else d)"

text \<open>
  \<open>performCleanup\<close>: closes the document when a server, an open document and a file are
  recorded; unregisters the recorded file; decrements the reference count when the flag
  is set and a server is recorded, and clears the flag then; resets the two refs.
\<close>

definition performCleanup :: "World \<Rightarrow> World" where
  "performCleanup w =
     (let currentServerId = serverIdRef w;
          currentFilePath = filePathRef w;
          hasIncremented = hasIncrementedRefRef w;
          w1 = (if truthy currentServerId \<and> isDocumentOpenRef w \<and> truthy currentFilePath
                then (call (CloseDocument (strOf currentServerId) (strOf currentFilePath)) w)
                       \<lparr>isDocumentOpenRef := False\<rparr>
                else w);
          w2 = (if truthy currentFilePath
                then (call (Unregister (strOf currentFilePath)) w1)
                       \<lparr>manager := snd (unregister (strOf currentFilePath) (manager w1))\<rparr>
                else w1);
          w3 = (if hasIncremented \<and> truthy currentServerId
                then (call (DecrementRefCount (strOf currentServerId)) w2)
                       \<lparr>hasIncrementedRefRef := False\<rparr>
                else w2)
      in w3\<lparr>serverIdRef := None, filePathRef := None\<rparr>)"

text \<open>
  One run of the effect that starts and stops the connection. \<open>isMounted\<close> is the
  variable of the run that its cleanup function sets to \<open>false\<close>; \<open>awaiting\<close> says at
  which \<open>await\<close> the function \<open>initializeConnection\<close> of the run stands.
\<close>

datatype Await = AwaitStatus | AwaitStart | Finished

record Activation =
  isMounted :: bool
  awaiting :: Await
  actFilePath :: string
  actLanguage :: string
  actWorkspaceRoot :: string

text \<open>
  The body of the effect, up to the first \<open>await\<close>. It returns the run when it has
  started one (then it has returned the cleanup function to React), and no run when it
  has left early. The tests of the source that leave early when one of several values is
  falsy, \<open>!a || !b\<close>, are written \<open>\<not> (a \<and> b)\<close> here and in the document actions.
\<close>

definition useLspEffect ::
  "LspServers \<Rightarrow> bool \<Rightarrow> string option \<Rightarrow> string option \<Rightarrow> World \<Rightarrow> Activation option \<times> World" where
  "useLspEffect srv enabledOption filePath workspaceRoot w =
     (let lang = (if truthy filePath then getLanguageIdForPath srv (strOf filePath) else None);
          isEnabled = (enabledOption \<and> enabled (store w))
      in if \<not> (isEnabled \<and> truthy filePath \<and> truthy workspaceRoot \<and> truthy lang)
         then (None,
               if truthy (serverIdRef w) \<or> hasIncrementedRefRef w
               then (performCleanup w)\<lparr>isConnected := False, serverIdState := None\<rparr>
               else w)
         else if \<not> hasLspSupport srv (strOf lang) then (None, w)
         else (Some \<lparr>isMounted = True, awaiting = AwaitStatus, actFilePath = strOf filePath,
                      actLanguage = strOf lang, actWorkspaceRoot = strOf workspaceRoot\<rparr>,
               call (GetServerStatus (strOf lang)) (w\<lparr>isLoading := True, error := None\<rparr>)))"

text \<open>The \<open>finally\<close> block, which every exit of \<open>initializeConnection\<close> passes.\<close>

definition finishTry :: "Activation \<Rightarrow> World \<Rightarrow> Activation \<times> World" where
  "finishTry a w = (a\<lparr>awaiting := Finished\<rparr>, if isMounted a then w\<lparr>isLoading := False\<rparr> else w)"

definition caught :: "Thrown \<Rightarrow> Activation \<Rightarrow> World \<Rightarrow> Activation \<times> World" where
  "caught e a w =
     finishTry a
       (if isMounted a
        then w\<lparr>error := Some (case e of JsError m \<Rightarrow> m
                                | NotAnError \<Rightarrow> ''Failed to start LSP server'')\<rparr>
        else w)"

text \<open>The end of the \<open>try\<close> block, once the server is known.\<close>

definition connectView :: "string \<Rightarrow> Activation \<Rightarrow> World \<Rightarrow> Activation \<times> World" where
  "connectView sid a w =
     finishTry a
       (if isMounted a
        then (call (Register (actFilePath a) sid (actLanguage a) (actWorkspaceRoot a)) w)
               \<lparr>serverIdRef := Some sid, languageRef := Some (actLanguage a),
                workspaceRootRef := Some (actWorkspaceRoot a), serverIdState := Some sid,
                isConnected := True,
                manager := register (actFilePath a) sid (actLanguage a) (actWorkspaceRoot a)
                             (manager w)\<rparr>
        else w)"

definition startNew :: "Activation \<Rightarrow> World \<Rightarrow> Activation \<times> World" where
  "startNew a w =
     (a\<lparr>awaiting := AwaitStart\<rparr>, call (StartServer (actLanguage a) (actWorkspaceRoot a)) w)"

definition notInstalledClick :: "LspServers \<Rightarrow> string \<Rightarrow> string" where
  "notInstalledClick srv lang =
     ''LSP server for '' @ getLanguageDisplayName srv lang @ '' is not installed. Click to install.''"

definition pleaseInstall :: "LspServers \<Rightarrow> string \<Rightarrow> string" where
  "pleaseInstall srv lang =
     ''LSP server not available. Please install: '' @
       orElse (map_option command (getServerConfig srv lang)) ''unknown''"

text \<open>
  \<open>initializeConnection\<close> from the answer of \<open>getServerStatus\<close> to its end or to the
  \<open>await\<close> of \<open>startServer\<close>. \<open>incrementRefCount\<close> is what the service answers to the
  call of that name, which is synchronous. An answer finds the run at the \<open>await\<close> that
  waits for it; given to a run that stands elsewhere, the step changes nothing.
\<close>

definition statusArrived ::
  "LspServers \<Rightarrow> (string \<Rightarrow> bool) \<Rightarrow> Thrown + ServerStatus \<Rightarrow> Activation \<Rightarrow> World
     \<Rightarrow> Activation \<times> World" where
  "statusArrived srv incrementRefCount result a w =
     (if awaiting a \<noteq> AwaitStatus then (a, w)
      else case result of
        Inl e \<Rightarrow> caught e a w
      | Inr status \<Rightarrow>
          (let lang = actLanguage a; root = actWorkspaceRoot a
           in if \<not> available status
              then (if canDownload status
                    then (let config = getServerConfig srv lang;
                              pendingDownload =
                                \<lparr>pdLanguage = lang,
                                 languageDisplayName = getLanguageDisplayName srv lang,
                                 serverName = orElse (map_option name config) lang,
                                 pdDownloadUrl = downloadUrl status\<rparr>;
                              w1 = w\<lparr>store := addPendingDownload pendingDownload (store w)\<rparr>
                          in finishTry a
                               (if isMounted a
                                then w1\<lparr>error := Some (notInstalledClick srv lang),
                                        isLoading := False\<rparr>
                                else w1))
                    else finishTry a
                           (if isMounted a
                            then w\<lparr>error := Some (pleaseInstall srv lang), isLoading := False\<rparr>
                            else w))
              else (let w1 = call (GetConnectionByRoot root lang) w
                    in case getConnectionByRoot root lang (manager w1) of
                         None \<Rightarrow> startNew a w1
                       | Some existingConnection \<Rightarrow>
                           (let sid = serverId existingConnection;
                                w2 = call (IncrementRefCount sid) w1
                            in if incrementRefCount sid
                               then (let w3 = w2\<lparr>hasIncrementedRefRef := True\<rparr>
                                     in if sid = [] then startNew a w3 else connectView sid a w3)
                               else startNew a
                                      ((call (UnregisterServer sid) w2)
                                         \<lparr>manager := unregisterServer sid (manager w2)\<rparr>)))))"

text \<open>\<open>initializeConnection\<close> from the answer of \<open>startServer\<close> to its end.\<close>

definition startArrived :: "Thrown + string \<Rightarrow> Activation \<Rightarrow> World \<Rightarrow> Activation \<times> World" where
  "startArrived result a w =
     (if awaiting a \<noteq> AwaitStart then (a, w)
      else case result of
        Inl e \<Rightarrow> caught e a w
      | Inr sid \<Rightarrow> connectView sid a (w\<lparr>hasIncrementedRefRef := True\<rparr>))"

text \<open>The cleanup function of a run.\<close>

definition effectCleanup :: "Activation \<Rightarrow> World \<Rightarrow> Activation \<times> World" where
  "effectCleanup a w = (a\<lparr>isMounted := False\<rparr>, performCleanup w)"

text \<open>The servers of the \<open>decrementRefCount\<close> calls of a trace, in order.\<close>

fun decrements :: "Call list \<Rightarrow> string list" where
  "decrements [] = []"
| "decrements (DecrementRefCount sid # cs) = sid # decrements cs"
| "decrements (c # cs) = decrements cs"

text \<open>
  The document actions of the hook. \<open>reply\<close> is the outcome of the awaited call to the
  service: nothing when it resolves, the thrown value when it rejects.
\<close>

definition openDocument ::
  "LspServers \<Rightarrow> string option \<Rightarrow> string \<Rightarrow> Thrown option \<Rightarrow> World \<Rightarrow> Thrown option \<times> World" where
  "openDocument srv filePath content reply w =
     (if \<not> (truthy (serverIdRef w) \<and> truthy filePath \<and> truthy (languageRef w))
      then (Some (JsError ''LSP server not connected''), w)
      else if isDocumentOpenRef w \<and> filePathRef w = filePath then (None, w)
      else (let lspLanguageId = orElse (getLspLanguageIdForPath srv (strOf filePath))
                                  (strOf (languageRef w));
                w1 = call (OpenDocument (strOf (serverIdRef w)) (strOf filePath) lspLanguageId
                             content) w
            in case reply of
                 Some e \<Rightarrow> (Some e, w1)
               | None \<Rightarrow> (None, w1\<lparr>filePathRef := filePath, isDocumentOpenRef := True\<rparr>)))"

definition updateDocument :: "string \<Rightarrow> Thrown option \<Rightarrow> World \<Rightarrow> Thrown option \<times> World" where
  "updateDocument content reply w =
     (if \<not> (truthy (serverIdRef w) \<and> truthy (filePathRef w)) then (None, w)
      else (reply, call (ChangeDocument (strOf (serverIdRef w)) (strOf (filePathRef w)) content) w))"

definition closeDocument :: "Thrown option \<Rightarrow> World \<Rightarrow> Thrown option \<times> World" where
  "closeDocument reply w =
     (if \<not> (truthy (serverIdRef w) \<and> truthy (filePathRef w)) then (None, w)
      else (let w1 = call (CloseDocument (strOf (serverIdRef w)) (strOf (filePathRef w))) w
            in case reply of
                 Some e \<Rightarrow> (Some e, w1)
               | None \<Rightarrow> (None, w1\<lparr>isDocumentOpenRef := False\<rparr>)))"

text \<open>The \<open>openDocument\<close> calls of a trace for a file.\<close>

fun opensOf :: "string \<Rightarrow> Call list \<Rightarrow> nat" where
  "opensOf f [] = 0"
| "opensOf f (OpenDocument sid p l c # cs) = (if p = f then 1 else 0) + opensOf f cs"
| "opensOf f (c # cs) = opensOf f cs"

subsection \<open>The subscription to the diagnostics\<close>

datatype MarkerSeverity = MarkerError | MarkerWarning | MarkerInfo | MarkerHint

record MarkerData =
  mkSeverity :: MarkerSeverity
  mkMessage :: string
  startLineNumber :: nat
  startColumn :: nat
  endLineNumber :: nat
  endColumn :: nat
  mkSource :: string
  mkCode :: "string option"

fun mapLspSeverity :: "nat option \<Rightarrow> MarkerSeverity" where
  "mapLspSeverity (Some n) =
     (if n = 1 then MarkerError else if n = 2 then MarkerWarning
      else if n = 3 then MarkerInfo else if n = 4 then MarkerHint else MarkerInfo)"
| "mapLspSeverity None = MarkerInfo"

text \<open>What the handler finds around it: the editor, its model, and \<open>window.monaco\<close>.\<close>

record EditorContext =
  hasEditor :: bool
  hasModel :: bool
  hasMonaco :: bool

definition severityShown :: "LspState \<Rightarrow> Diagnostic \<Rightarrow> bool" where
  "severityShown state d =
     (case severity d of
        None \<Rightarrow> True
      | Some n \<Rightarrow>
          (if n = 1 then showErrors state else if n = 2 then showWarnings state
           else if n = 3 then showInfo state else if n = 4 then showHints state else True))"

definition toMarker :: "LspProtocol \<Rightarrow> string \<Rightarrow> Diagnostic \<Rightarrow> MarkerData" where
  "toMarker proto diagnosticLanguage d =
     \<lparr>mkSeverity = mapLspSeverity (severity d),
      mkMessage = message d,
      startLineNumber = line (rangeStart (range d)) + 1,
      startColumn = character (rangeStart (range d)) + 1,
      endLineNumber = line (rangeEnd (range d)) + 1,
      endColumn = character (rangeEnd (range d)) + 1,
      mkSource = diagnosticLanguage,
      mkCode = map_option (codeToString proto) (code d)\<rparr>"

definition uriPath :: "string \<Rightarrow> string" where
  "uriPath uri = (if take 7 uri = ''file://'' then drop 7 uri else uri)"

text \<open>
  What a diagnostics event does in the view. The effect subscribes the handler only for
  an enabled hook (\<open>isEnabled\<close>, the option of the view and the setting of the store):
  a disabled hook has no handler, and the event does nothing there. The first component
  of the result is the list of markers given to \<open>setModelMarkers\<close>, when the handler
  calls it.
\<close>

definition onDiagnostics ::
  "LspProtocol \<Rightarrow> LspServers \<Rightarrow> bool \<Rightarrow> EditorContext \<Rightarrow> string option \<Rightarrow> string
     \<Rightarrow> Diagnostic list \<Rightarrow> World \<Rightarrow> MarkerData list option \<times> World" where
  "onDiagnostics proto srv enabledOption ed filePath uri diagnostics w =
     (let isEnabled = (enabledOption \<and> enabled (store w));
          w1 = w\<lparr>store := setDiagnostics proto uri diagnostics (store w)\<rparr>
      in if \<not> isEnabled then (None, w)
         else if hasEditor ed \<and> truthy filePath
         then (if \<not> showDiagnostics (store w1) then (None, w1)
               else if \<not> hasModel ed then (None, w1)
               else if \<not> hasMonaco ed then (None, w1)
               else (let diagnosticFilePath = uriPath uri
                     in if Some diagnosticFilePath \<noteq> filePath then (None, w1)
                        else (let diagnosticLang = getLanguageIdForPath srv diagnosticFilePath;
                                  currentLang = languageRef w1
                              in if truthy diagnosticLang \<and> truthy currentLang \<and>
                                    diagnosticLang \<noteq> currentLang
                                 then (None, w1)
                                 else (let diagnosticLanguage =
                                             orElse (getLanguageIdForPath srv diagnosticFilePath)
                                               ''lsp'';
                                           markers = map (toMarker proto diagnosticLanguage)
                                                       (filter (severityShown (store w1))
                                                          diagnostics)
                                       in (Some markers, w1)))))
         else (None, w1))"

subsection \<open>Interleavings\<close>

text \<open>
  What can happen to a run that has been started, in any order: React calls its cleanup
  function, the service answers \<open>getServerStatus\<close> (and, asked in the same turn, grants
  or refuses \<open>incrementRefCount\<close>), the service answers \<open>startServer\<close>.
\<close>

datatype Step =
    Deactivate
  | StatusAnswer "Thrown + ServerStatus" bool
  | StartAnswer "Thrown + string"

fun step :: "LspServers \<Rightarrow> Activation \<times> World \<Rightarrow> Step \<Rightarrow> Activation \<times> World" where
  "step srv (a, w) Deactivate = effectCleanup a w"
| "step srv (a, w) (StatusAnswer result granted) = statusArrived srv (\<lambda>sid. granted) result a w"
| "step srv (a, w) (StartAnswer result) = startArrived result a w"

definition steps :: "LspServers \<Rightarrow> Step list \<Rightarrow> Activation \<times> World \<Rightarrow> Activation \<times> World" where
  "steps srv ss aw = foldl (step srv) aw ss"

text \<open>Calls of \<open>openDocument\<close> one after the other, each of them resolving.\<close>

definition openMany :: "LspServers \<Rightarrow> string option \<Rightarrow> string list \<Rightarrow> World \<Rightarrow> World" where
  "openMany srv filePath contents w =
     foldl (\<lambda>w' content. snd (openDocument srv filePath content None w')) w contents"

subsection \<open>Sample helpers\<close>

text \<open>
  A sample of the helpers of \<open>lsp-servers\<close>, to run the model on concrete inputs: files
  that end in \<open>.ts\<close> are TypeScript, files that end in \<open>.py\<close> are Python, and both
  languages have a server.
\<close>

definition endsWith :: "string \<Rightarrow> string \<Rightarrow> bool" where
  "endsWith suffix s = (take (length suffix) (rev s) = rev suffix)"

definition sampleServers :: LspServers where
  "sampleServers =
     \<lparr>getServerConfig =
        (\<lambda>l. if l = ''typescript''
             then Some \<lparr>name = ''TypeScript Language Server'',
                        command = ''typescript-language-server''\<rparr>
             else if l = ''python'' then Some \<lparr>name = ''Pyright'', command = ''pyright-langserver''\<rparr>
             else None),
      getLanguageDisplayName =
        (\<lambda>l. if l = ''typescript'' then ''TypeScript'' else if l = ''python'' then ''Python'' else l),
      getLanguageIdForPath =
        (\<lambda>p. if endsWith ''.ts'' p then Some ''typescript''
             else if endsWith ''.py'' p then Some ''python'' else None),
      getLspLanguageIdForPath =
        (\<lambda>p. if endsWith ''.ts'' p then Some ''typescript''
             else if endsWith ''.py'' p then Some ''python'' else None),
      hasLspSupport = (\<lambda>l. l = ''typescript'' \<or> l = ''python'')\<rparr>"

definition sampleProtocol :: LspProtocol where
  "sampleProtocol =
     \<lparr>severityToString =
        (\<lambda>n. if n = 1 then SevError else if n = 2 then SevWarning
             else if n = 3 then SevInfo else if n = 4 then SevHint else SevInfo),
      uriToFilePath = uriPath,
      exponentToString = (\<lambda>i. ''1e+21'')\<rparr>"

definition serverReady :: ServerStatus where
  "serverReady = \<lparr>available = True, canDownload = False, downloadUrl = None\<rparr>"

text \<open>
  A view of \<open>/w/a.ts\<close> in the workspace \<open>/w\<close>: the run that its effect starts, and the
  state of the view once the effect has asked for the status of the server. In
  \<open>sharedWorld\<close> another view holds the server \<open>srv-1\<close> for the same root and language.
\<close>

definition sampleRun :: Activation where
  "sampleRun =
     \<lparr>isMounted = True, awaiting = AwaitStatus, actFilePath = ''/w/a.ts'',
      actLanguage = ''typescript'', actWorkspaceRoot = ''/w''\<rparr>"

definition sharedWorld :: World where
  "sharedWorld =
     initialWorld\<lparr>manager := register ''/w/b.ts'' ''srv-1'' ''typescript'' ''/w'' emptyManager\<rparr>"

definition asked :: "World \<Rightarrow> World" where
  "asked w = w\<lparr>isLoading := True, error := None, calls := calls w @ [GetServerStatus ''typescript'']\<rparr>"

definition sampleDiagnostic :: Diagnostic where
  "sampleDiagnostic =
     \<lparr>severity = Some 1, message = ''unused variable'',
      range = \<lparr>rangeStart = \<lparr>line = 0, character = 4\<rparr>,
               rangeEnd = \<lparr>line = 0, character = 9\<rparr>\<rparr>,
      code = None\<rparr>"

definition allPresent :: EditorContext where
  "allPresent = \<lparr>hasEditor = True, hasModel = True, hasMonaco = True\<rparr>"

section \<open>Properties of the connection manager\<close>


lemma set_delete_distinct: "distinct xs \<Longrightarrow> distinct (set_delete x xs)"
  by (simp add: set_delete_def distinct_removeAll)

lemma set_add_again: "set_add x (set_add x xs) = set_add x xs"
  by (simp add: set_add_def)



lemma register_connection:
  "map_of (connections (register f sid lang root m)) f =
     Some \<lparr>serverId = sid, language = lang, rootPath = root\<rparr>"
  by (simp add: register_def Let_def update_conv')




lemma list_all_update:
  "list_all P al \<Longrightarrow> P (k, v) \<Longrightarrow> list_all P (AList.update k v al)"
  by (induction al) auto

lemma list_all_delete: "list_all P al \<Longrightarrow> list_all P (AList.delete k al)"
  by (induction al) (auto simp: AList.delete_eq)

lemma map_of_list_all: "list_all P al \<Longrightarrow> map_of al k = Some v \<Longrightarrow> P (k, v)"
  by (induction al) (auto split: if_splits)



lemma wellFormed_unregister: "wellFormed m \<Longrightarrow> wellFormed (snd (unregister f m))"
proof -
  assume wf: "wellFormed m"
  show ?thesis
  proof (cases "map_of (connections m) f")
    case None
    with wf show ?thesis by (simp add: unregister_def)
  next
    case (Some conn)
    let ?key = "refKey (rootPath conn) (language conn)"
    show ?thesis
    proof (cases "map_of (serverReferences m) ?key")
      case None
      with Some wf show ?thesis
        by (simp add: unregister_def Let_def wellFormed_def distinct_delete)
    next
      case refs: (Some r)
      from wf map_of_list_all [of "\<lambda>e. distinct (filePaths (snd e))" "serverReferences m" ?key r] refs
      have "distinct (filePaths r)" by (simp add: wellFormed_def)
      then have "distinct (set_delete f (filePaths r))" by (rule set_delete_distinct)
      with Some refs wf show ?thesis
        by (simp add: unregister_def Let_def wellFormed_def distinct_delete distinct_update
            list_all_update list_all_delete)
    qed
  qed
qed

lemma foldl_delete_distinct:
  "distinct (map fst al) \<Longrightarrow> distinct (map fst (foldl (\<lambda>cs p. AList.delete p cs) al ks))"
  by (induction ks arbitrary: al) (simp_all add: distinct_delete)

lemma foldl_delete_list_all:
  "list_all P al \<Longrightarrow> list_all P (foldl (\<lambda>cs p. AList.delete p cs) al ks)"
  by (induction ks arbitrary: al) (simp_all add: list_all_delete)

lemma wellFormed_unregisterServer: "wellFormed m \<Longrightarrow> wellFormed (unregisterServer sid m)"
  by (simp add: wellFormed_def unregisterServer_def Let_def foldl_delete_distinct
      foldl_delete_list_all)


lemma unregister_found:
  assumes "map_of (connections m) f = Some conn"
  shows "unregister f m =
     (let conns = AList.delete f (connections m);
          key = refKey (rootPath conn) (language conn)
      in case map_of (serverReferences m) key of
           Some refs \<Rightarrow>
             if set (filePaths refs) - {f} = {}
             then (True, \<lparr>connections = conns,
                          serverReferences = AList.delete key (serverReferences m)\<rparr>)
             else (False, \<lparr>connections = conns,
                           serverReferences =
                             AList.update key (refs\<lparr>filePaths := removeAll f (filePaths refs)\<rparr>)
                               (serverReferences m)\<rparr>)
         | None \<Rightarrow> (False, \<lparr>connections = conns, serverReferences = serverReferences m\<rparr>))"
proof -
  have "(length (removeAll f xs) = 0) = (set xs - {f} = {})" for xs :: "string list"
    by (metis length_0_conv set_empty set_removeAll)
  then show ?thesis
    using assms by (simp add: unregister_def Let_def set_delete_def set_size_def split: option.splits)
qed

subsection \<open>What the reference functions count\<close>

lemma foldl_references:
  "foldl (\<lambda>paths refs. if serverId refs = sid then paths @ filePaths refs else paths) acc rs =
     acc @ concat (map filePaths (filter (\<lambda>r. serverId r = sid) rs))"
  by (induction rs arbitrary: acc) simp_all

lemma foldl_reference_count:
  "foldl (\<lambda>count refs. if serverId refs = sid then count + set_size (filePaths refs) else count)
     c rs = c + length (concat (map filePaths (filter (\<lambda>r. serverId r = sid) rs)))"
  by (induction rs arbitrary: c) (simp_all add: set_size_def)

lemma getFileReferences_filter:
  "getFileReferences sid m =
     concat (map filePaths (filter (\<lambda>r. serverId r = sid) (map snd (serverReferences m))))"
  by (simp add: getFileReferences_def foldl_references)

lemma getFileReferenceCount_length:
  "getFileReferenceCount sid m = length (getFileReferences sid m)"
  by (simp add: getFileReferenceCount_def getFileReferences_filter foldl_reference_count)




lemma update_same_projection:
  "map_of al k = Some v \<Longrightarrow> g v' = g v \<Longrightarrow>
   map (\<lambda>e. g (snd e)) (AList.update k v' al) = map (\<lambda>e. g (snd e)) al"
  by (induction al) (auto split: if_splits)

lemma update_new_key: "map_of al k = None \<Longrightarrow> AList.update k v al = al @ [(k, v)]"
  by (induction al) (auto split: if_splits)

lemma serversDistinct_register:
  assumes "serversDistinct m" and "serverFree sid root lang m"
  shows "serversDistinct (register f sid lang root m)"
proof (cases "map_of (serverReferences m) (refKey root lang)")
  case None
  then have absent: "refKey root lang \<notin> fst ` set (serverReferences m)"
    by (simp add: map_of_eq_None_iff)
  with assms(2) have "sid \<notin> (\<lambda>e. serverId (snd e)) ` set (serverReferences m)"
    by (force simp: serverFree_def list_all_iff)
  with assms(1) None show ?thesis
    by (simp add: serversDistinct_def register_def Let_def update_new_key)
next
  case (Some r)
  with assms(1) show ?thesis
    by (simp add: serversDistinct_def register_def Let_def
        update_same_projection [where g = serverId and v = r])
qed

lemma found_server_is_free:
  assumes "serversDistinct m" and "getConnectionByRoot root lang m = Some conn"
  shows "serverFree (serverId conn) root lang m"
proof -
  from assms(2) obtain r where r: "map_of (serverReferences m) (refKey root lang) = Some r"
    and sid: "serverId r = serverId conn"
    by (auto simp: getConnectionByRoot_def split: option.splits)
  from r have mem: "(refKey root lang, r) \<in> set (serverReferences m)"
    by (rule map_of_SomeD)
  have "fst e = refKey root lang"
    if "e \<in> set (serverReferences m)" "serverId (snd e) = serverId conn" for e
  proof -
    from assms(1) have "inj_on (\<lambda>e. serverId (snd e)) (set (serverReferences m))"
      by (simp add: serversDistinct_def distinct_map)
    from inj_onD [OF this, of e "(refKey root lang, r)"] that mem sid
    have "e = (refKey root lang, r)" by simp
    then show ?thesis by simp
  qed
  then show ?thesis by (auto simp: serverFree_def list_all_iff)
qed

lemma new_server_is_free:
  "list_all (\<lambda>e. serverId (snd e) \<noteq> sid) (serverReferences m) \<Longrightarrow> serverFree sid root lang m"
  by (auto simp: serverFree_def list_all_iff)

lemma foldl_delete_set:
  "set (foldl (\<lambda>cs p. AList.delete p cs) al ks) = {e \<in> set al. fst e \<notin> set ks}"
  by (induction ks arbitrary: al) (auto simp: AList.delete_eq)

lemma unregisterServer_purges:
  "list_all (\<lambda>e. serverId (snd e) \<noteq> sid) (serverReferences (unregisterServer sid m)) \<and>
   list_all (\<lambda>e. serverId (snd e) \<noteq> sid) (connections (unregisterServer sid m))"
  by (force simp: unregisterServer_def Let_def list_all_iff foldl_delete_set)

lemma unregisterServer_lookup:
  assumes "getConnectionByRoot root lang m = Some conn"
  shows "getConnectionByRoot root lang (unregisterServer (serverId conn) m) = None"
proof -
  from assms obtain r where r: "map_of (serverReferences m) (refKey root lang) = Some r"
    and sid: "serverId r = serverId conn"
    by (auto simp: getConnectionByRoot_def split: option.splits)
  from r have mem: "(refKey root lang, r) \<in> set (serverReferences m)"
    by (rule map_of_SomeD)
  let ?ks = "map fst (filter (\<lambda>(k, refs). serverId refs = serverId conn) (serverReferences m))"
  from mem sid have kin: "refKey root lang \<in> set ?ks"
    by force
  have left: "set (serverReferences (unregisterServer (serverId conn) m)) =
      {e \<in> set (serverReferences m). fst e \<notin> set ?ks}"
    by (simp add: unregisterServer_def Let_def foldl_delete_set)
  have gone: "k \<notin> fst ` {e \<in> A. fst e \<notin> K}" if "k \<in> K"
    for k :: string and K and A :: "(string \<times> ServerFileReferences) set"
    using that by auto
  have notin: "refKey root lang \<notin> fst ` {e \<in> set (serverReferences m). fst e \<notin> set ?ks}"
    using kin by (rule gone)
  have "refKey root lang \<notin> fst ` set (serverReferences (unregisterServer (serverId conn) m))"
    unfolding left by (rule notin)
  then have "map_of (serverReferences (unregisterServer (serverId conn) m)) (refKey root lang)
      = None"
    by (simp add: map_of_eq_None_iff)
  then show ?thesis
    by (simp add: getConnectionByRoot_def)
qed

lemma unregisterServer_count:
  "getFileReferences sid (unregisterServer sid m) = [] \<and>
   getFileReferenceCount sid (unregisterServer sid m) = 0"
proof -
  have "filter (\<lambda>r. serverId r = sid) (map snd (serverReferences (unregisterServer sid m))) = []"
    using unregisterServer_purges [of sid m] by (auto simp: filter_empty_conv list_all_iff)
  then show ?thesis
    by (simp add: getFileReferenceCount_length getFileReferences_filter)
qed

subsection \<open>Registering a file twice\<close>

text \<open>
  The servers that the manager is given are servers of the root and language that come
  with them. That matters for the count: were one server registered for a file under two
  roots, its two entries would both hold the file, and the file would be counted twice.
\<close>

lemma one_server_under_two_roots:
  "getFileReferences ''srv-1''
     (register ''/w/app/a.ts'' ''srv-1'' ''typescript'' ''/w/app''
       (register ''/w/app/a.ts'' ''srv-1'' ''typescript'' ''/w'' emptyManager))
     = [''/w/app/a.ts'', ''/w/app/a.ts''] \<and>
   \<not> serverFree ''srv-1'' ''/w/app'' ''typescript''
       (register ''/w/app/a.ts'' ''srv-1'' ''typescript'' ''/w'' emptyManager)"
  by code_simp



text \<open>
  The two conditions on the servers hold for the calls of the hook: a server that
  \<open>getConnectionByRoot\<close> has found is named under that key only, and so is a server that
  no entry names yet; and \<open>register\<close> keeps the servers of the entries distinct.
\<close>

lemma hook_calls_keep_servers_distinct:
  assumes "serversDistinct m"
    and "getConnectionByRoot root lang m = Some conn \<and> sid = serverId conn \<or>
         list_all (\<lambda>e. serverId (snd e) \<noteq> sid) (serverReferences m)"
  shows "serverFree sid root lang m \<and> serversDistinct (register f sid lang root m)"
  using assms found_server_is_free new_server_is_free serversDistinct_register by blast

subsection \<open>Unregistering a file\<close>

text \<open>
  C5: for a file that has a connection, \<open>unregister\<close> removes the connection of that file
  and of no other file, and returns \<open>true\<close> exactly when the key of the connection (its
  root and language) has an entry whose file set holds no file once this file is taken
  out; when it returns \<open>true\<close> the entry of the key is gone, and when it returns
  \<open>false\<close> an entry of the key stays, without the file.
\<close>

theorem unregister_last_reference:
  assumes "getConnection f m = Some conn"
  shows "getConnection f (snd (unregister f m)) = None \<and>
     (\<forall>g. g \<noteq> f \<longrightarrow> getConnection g (snd (unregister f m)) = getConnection g m) \<and>
     (fst (unregister f m) \<longleftrightarrow>
        (\<exists>refs. map_of (serverReferences m) (refKey (rootPath conn) (language conn)) = Some refs \<and>
                 set (filePaths refs) - {f} = {})) \<and>
     (fst (unregister f m) \<longrightarrow>
        map_of (serverReferences (snd (unregister f m))) (refKey (rootPath conn) (language conn))
          = None) \<and>
     (\<not> fst (unregister f m) \<longrightarrow>
        map_of (serverReferences (snd (unregister f m))) (refKey (rootPath conn) (language conn))
          = map_option (\<lambda>refs. refs\<lparr>filePaths := removeAll f (filePaths refs)\<rparr>)
              (map_of (serverReferences m) (refKey (rootPath conn) (language conn))))"
proof -
  from assms have found: "map_of (connections m) f = Some conn"
    by (simp add: getConnection_def)
  show ?thesis
    unfolding unregister_found [OF found] getConnection_def Let_def
    by (simp add: delete_conv' update_conv' split: option.splits)
qed

theorem unregister_last_reference_witness:
  "getConnection ''/w/a.ts'' (register ''/w/a.ts'' ''srv-1'' ''typescript'' ''/w'' emptyManager) =
     Some \<lparr>serverId = ''srv-1'', language = ''typescript'', rootPath = ''/w''\<rparr> \<and>
   fst (unregister ''/w/a.ts'' (register ''/w/a.ts'' ''srv-1'' ''typescript'' ''/w'' emptyManager)) \<and>
   getConnectionByRoot ''/w'' ''typescript''
     (snd (unregister ''/w/a.ts''
        (register ''/w/a.ts'' ''srv-1'' ''typescript'' ''/w'' emptyManager))) = None"
proof -
  let ?m = "register ''/w/a.ts'' ''srv-1'' ''typescript'' ''/w'' emptyManager"
  have conn: "getConnection ''/w/a.ts'' ?m =
      Some \<lparr>serverId = ''srv-1'', language = ''typescript'', rootPath = ''/w''\<rparr>"
    by (simp add: getConnection_def register_connection)
  have refs: "map_of (serverReferences ?m) (refKey ''/w'' ''typescript'') =
      Some \<lparr>serverId = ''srv-1'', language = ''typescript'', rootPath = ''/w'',
            filePaths = [''/w/a.ts'']\<rparr>"
    by (simp add: register_def emptyManager_def set_add_def)
  from unregister_last_reference [OF conn] refs conn show ?thesis
    by (simp add: getConnectionByRoot_def)
qed

text \<open>
  C6: for a file that has no connection (never registered, or unregistered since),
  \<open>unregister\<close> returns \<open>false\<close> and leaves the manager as it was, so the reference count
  of every server is what it was. The function has no exceptional exit, and it reaches
  the manager only: the reference counts of the server registry are out of its reach.
\<close>

theorem unregister_not_found:
  assumes "\<not> hasConnection f m"
  shows "unregister f m = (False, m) \<and>
     (\<forall>sid. getFileReferenceCount sid (snd (unregister f m)) = getFileReferenceCount sid m)"
  using assms by (simp add: hasConnection_def unregister_def)

theorem unregister_not_found_witness:
  "\<not> hasConnection ''/w/b.ts'' (register ''/w/a.ts'' ''srv-1'' ''typescript'' ''/w'' emptyManager) \<and>
   unregister ''/w/b.ts'' (register ''/w/a.ts'' ''srv-1'' ''typescript'' ''/w'' emptyManager) =
     (False, register ''/w/a.ts'' ''srv-1'' ''typescript'' ''/w'' emptyManager)"
proof -
  have none: "\<not> hasConnection ''/w/b.ts''
      (register ''/w/a.ts'' ''srv-1'' ''typescript'' ''/w'' emptyManager)"
    by (simp add: hasConnection_def register_def emptyManager_def)
  from unregister_not_found [OF none] none show ?thesis
    by simp
qed

section \<open>Properties of the diagnostics store\<close>

lemma countOne_plus: "countOne (plusCounts a b) d = plusCounts a (countOne b d)"
  by (cases "ldSeverity d") (simp_all add: plusCounts_def)

lemma foldl_countOne_plus:
  "foldl countOne (plusCounts a b) ds = plusCounts a (foldl countOne b ds)"
  by (induction ds arbitrary: b) (simp_all add: countOne_plus del: countOne.simps)

lemma plusCounts_zero: "plusCounts a zeroCounts = a"
  by (simp add: plusCounts_def zeroCounts_def)

lemma countDiagnostics_append:
  "countDiagnostics (xs @ ys) = plusCounts (countDiagnostics xs) (countDiagnostics ys)"
proof -
  have "foldl countOne (foldl countOne zeroCounts xs) ys =
      foldl countOne (plusCounts (foldl countOne zeroCounts xs) zeroCounts) ys"
    by (simp add: plusCounts_zero)
  then show ?thesis
    by (simp add: countDiagnostics_def foldl_countOne_plus)
qed

lemma countDiagnostics_Nil: "countDiagnostics [] = zeroCounts"
  by (simp add: countDiagnostics_def)

text \<open>The loop of the store counts what the filters count.\<close>

lemma countDiagnostics_Cons:
  "countDiagnostics (d # ds) = plusCounts (countOne zeroCounts d) (countDiagnostics ds)"
proof -
  have "foldl countOne (plusCounts (countOne zeroCounts d) zeroCounts) ds =
      plusCounts (countOne zeroCounts d) (foldl countOne zeroCounts ds)"
    by (rule foldl_countOne_plus)
  then show ?thesis
    by (simp add: countDiagnostics_def plusCounts_zero del: countOne.simps)
qed

lemma countDiagnostics_numberOf:
  "countDiagnostics ds =
     \<lparr>errors = numberOf SevError ds, warnings = numberOf SevWarning ds,
      info = numberOf SevInfo ds, hints = numberOf SevHint ds\<rparr>"
proof (induction ds)
  case Nil
  show ?case by (simp add: countDiagnostics_Nil zeroCounts_def numberOf_def)
next
  case (Cons d ds)
  show ?case
    unfolding countDiagnostics_Cons Cons.IH
    by (cases "ldSeverity d") (simp_all add: plusCounts_def zeroCounts_def numberOf_def)
qed

lemma recount_total: "recount state = total (diagnosticsByFile state)"
  by (simp add: recount_def stored_def total_def countDiagnostics_numberOf)

lemma total_Nil: "total [] = zeroCounts"
  by (simp add: total_def countDiagnostics_Nil)

lemma total_Cons: "total (e # al) = plusCounts (countDiagnostics (snd e)) (total al)"
  by (simp add: total_def countDiagnostics_append)

lemma updateCounts_plus:
  "updateCounts (plusCounts a b) a c = plusCounts c b"
  "updateCounts (plusCounts a b) zeroCounts c = plusCounts a (plusCounts c b)"
  by (simp_all add: updateCounts_def plusCounts_def zeroCounts_def)

lemma total_update:
  "total (AList.update k v al) =
     updateCounts (total al) (case map_of al k of Some ds \<Rightarrow> countDiagnostics ds | None \<Rightarrow> zeroCounts)
       (countDiagnostics v)"
proof (induction al)
  case Nil
  show ?case
    by (simp add: total_Cons total_Nil updateCounts_def plusCounts_def zeroCounts_def)
next
  case (Cons e al)
  show ?case
  proof (cases "fst e = k")
    case True
    then show ?thesis
      by (cases e) (simp add: total_Cons updateCounts_def plusCounts_def)
  next
    case False
    with Cons show ?thesis
      by (cases e) (simp add: total_Cons updateCounts_def plusCounts_def split: option.splits)
  qed
qed

lemma total_delete_absent: "map_of al k = None \<Longrightarrow> AList.delete k al = al"
  by (induction al) (auto simp: AList.delete_eq split: if_splits)

lemma total_delete:
  "distinct (map fst al) \<Longrightarrow> map_of al k = Some ds \<Longrightarrow>
   total (AList.delete k al) = updateCounts (total al) (countDiagnostics ds) zeroCounts"
proof (induction al)
  case Nil
  then show ?case by simp
next
  case (Cons e al)
  show ?case
  proof (cases "fst e = k")
    case True
    with Cons.prems have "map_of al k = None" "snd e = ds"
      by (auto simp: map_of_eq_None_iff)
    with True show ?thesis
      by (cases e) (simp add: total_Cons total_delete_absent updateCounts_def plusCounts_def zeroCounts_def)
  next
    case False
    with Cons show ?thesis
      by (cases e) (simp add: total_Cons updateCounts_def plusCounts_def zeroCounts_def)
  qed
qed

lemma countsAgree_act: "countsAgree state \<Longrightarrow> countsAgree (act proto state a)"
proof (cases a)
  case (SetDiagnostics uri ds)
  assume "countsAgree state"
  then show ?thesis
    unfolding SetDiagnostics
    by (simp add: countsAgree_def recount_total setDiagnostics_def Let_def
        distinct_update total_update countDiagnostics_Nil split: option.splits)
next
  case (ClearDiagnostics uri)
  assume "countsAgree state"
  then show ?thesis
    unfolding ClearDiagnostics
    by (simp add: countsAgree_def recount_total clearDiagnostics_def Let_def
        distinct_delete total_delete zeroCounts_def [symmetric] split: option.splits)
next
  case ClearAllDiagnostics
  then show ?thesis
    by (simp add: countsAgree_def recount_total total_Nil clearAllDiagnostics_def
        zeroCounts_def)
qed (simp_all add: countsAgree_def recount_total)

lemma countsAgree_run: "countsAgree state \<Longrightarrow> countsAgree (runActions proto actions state)"
  unfolding runActions_def
  by (induction actions arbitrary: state) (simp_all add: countsAgree_act)

lemma countsAgree_initial: "countsAgree initialLspState"
  by (simp add: countsAgree_def recount_total total_Nil initialLspState_def zeroCounts_def)

text \<open>
  Two files with diagnostics, then one of them cleared: the counts follow what is stored.
\<close>

lemma counts_of_sample_actions:
  "diagnosticsCounts (runActions sampleProtocol
       [SetDiagnostics ''file:///w/a.ts''
          [sampleDiagnostic, sampleDiagnostic\<lparr>severity := Some 2\<rparr>],
        SetDiagnostics ''file:///w/b.ts'' [sampleDiagnostic\<lparr>severity := None\<rparr>]]
       initialLspState) = \<lparr>errors = 2, warnings = 1, info = 0, hints = 0\<rparr> \<and>
   diagnosticsCounts (runActions sampleProtocol
       [SetDiagnostics ''file:///w/a.ts''
          [sampleDiagnostic, sampleDiagnostic\<lparr>severity := Some 2\<rparr>],
        SetDiagnostics ''file:///w/b.ts'' [sampleDiagnostic\<lparr>severity := None\<rparr>],
        ClearDiagnostics ''file:///w/a.ts'']
       initialLspState) = \<lparr>errors = 1, warnings = 0, info = 0, hints = 0\<rparr>"
  by code_simp

text \<open>
  C9: after any sequence of \<open>setDiagnostics\<close>, \<open>clearDiagnostics\<close> and
  \<open>clearAllDiagnostics\<close> (and of changes of the settings) from the initial state of the
  store, \<open>diagnosticsCounts\<close>, kept by adding and subtracting the counts of one file, is
  the count by severity of all the diagnostics held in \<open>diagnosticsByFile\<close>: each of its
  four fields is the number of stored diagnostics of that severity, over all files.
\<close>

theorem counts_equal_recount:
  "diagnosticsCounts (runActions proto actions initialLspState) =
     recount (runActions proto actions initialLspState) \<and>
   errors (diagnosticsCounts (runActions proto actions initialLspState)) =
     int (length (filter (\<lambda>d. ldSeverity d = SevError)
       (concat (map snd (diagnosticsByFile (runActions proto actions initialLspState)))))) \<and>
   warnings (diagnosticsCounts (runActions proto actions initialLspState)) =
     int (length (filter (\<lambda>d. ldSeverity d = SevWarning)
       (concat (map snd (diagnosticsByFile (runActions proto actions initialLspState)))))) \<and>
   info (diagnosticsCounts (runActions proto actions initialLspState)) =
     int (length (filter (\<lambda>d. ldSeverity d = SevInfo)
       (concat (map snd (diagnosticsByFile (runActions proto actions initialLspState)))))) \<and>
   hints (diagnosticsCounts (runActions proto actions initialLspState)) =
     int (length (filter (\<lambda>d. ldSeverity d = SevHint)
       (concat (map snd (diagnosticsByFile (runActions proto actions initialLspState))))))"
proof -
  have "diagnosticsCounts (runActions proto actions initialLspState) =
      recount (runActions proto actions initialLspState)"
    using countsAgree_run [OF countsAgree_initial] by (simp add: countsAgree_def)
  then show ?thesis
    by (simp add: recount_def stored_def numberOf_def)
qed

section \<open>Properties of the hook\<close>

subsection \<open>Releasing the reference of a view\<close>

lemma decrements_append: "decrements (xs @ ys) = decrements xs @ decrements ys"
  by (induction xs rule: decrements.induct) simp_all

lemma performCleanup_decrements:
  "decrements (calls (performCleanup w)) =
     decrements (calls w) @
       (if hasIncrementedRefRef w \<and> truthy (serverIdRef w) then [strOf (serverIdRef w)] else [])"
  by (simp add: performCleanup_def Let_def call_def decrements_append)

lemma performCleanup_refs:
  "serverIdRef (performCleanup w) = None \<and> filePathRef (performCleanup w) = None \<and>
   hasIncrementedRefRef (performCleanup w) = (hasIncrementedRefRef w \<and> \<not> truthy (serverIdRef w))"
  by (auto simp: performCleanup_def Let_def call_def)

text \<open>
  The answer of \<open>startServer\<close> to a view that has been unmounted sets the flag and
  records no server.
\<close>

lemma unmounted_start_keeps_reference:
  assumes "\<not> isMounted a" and "awaiting a = AwaitStart"
  shows "hasIncrementedRefRef (snd (startArrived (Inr sid) a w)) \<and>
     serverIdRef (snd (startArrived (Inr sid) a w)) = serverIdRef w \<and>
     calls (snd (startArrived (Inr sid) a w)) = calls w \<and>
     manager (snd (startArrived (Inr sid) a w)) = manager w"
  using assms by (simp add: startArrived_def connectView_def finishTry_def)

text \<open>
  A run that is not disturbed: the view stays mounted until the server has started, and
  the cleanup that follows issues one \<open>decrementRefCount\<close>, for the server of the view.
\<close>

lemma undisturbed_run_releases_once:
  "decrements (calls (snd (steps sampleServers
       [StatusAnswer (Inr serverReady) True, StartAnswer (Inr ''srv-1''), Deactivate]
       (sampleRun, asked initialWorld)))) = [''srv-1''] \<and>
   \<not> hasIncrementedRefRef (snd (steps sampleServers
       [StatusAnswer (Inr serverReady) True, StartAnswer (Inr ''srv-1''), Deactivate]
       (sampleRun, asked initialWorld)))"
  by code_simp

text \<open>
  C1 asks that a reference which the view has acquired, and recorded in its flag, is
  released by exactly one \<open>decrementRefCount\<close> for that server, and the flag cleared. The
  hook misses this when the view is deactivated before \<open>startServer\<close> answers: the cleanup
  function runs first and finds nothing to release; the answer then sets the flag, but
  the server is stored for mounted views only. The next run of the effect, with the hook
  disabled, calls \<open>performCleanup\<close> because the flag is set; no server is recorded, so no
  \<open>decrementRefCount\<close> is issued and the flag stays set. The trace of the view holds the
  \<open>startServer\<close> call and no \<open>decrementRefCount\<close>.
\<close>

theorem late_start_never_released:
  "useLspEffect sampleServers True (Some ''/w/a.ts'') (Some ''/w'') initialWorld =
     (Some sampleRun, asked initialWorld) \<and>
   calls (snd (steps sampleServers
       [Deactivate, StatusAnswer (Inr serverReady) True, StartAnswer (Inr ''srv-1'')]
       (sampleRun, asked initialWorld))) =
     [GetServerStatus ''typescript'', GetConnectionByRoot ''/w'' ''typescript'',
      StartServer ''typescript'' ''/w''] \<and>
   hasIncrementedRefRef (snd (steps sampleServers
       [Deactivate, StatusAnswer (Inr serverReady) True, StartAnswer (Inr ''srv-1'')]
       (sampleRun, asked initialWorld))) \<and>
   serverIdRef (snd (steps sampleServers
       [Deactivate, StatusAnswer (Inr serverReady) True, StartAnswer (Inr ''srv-1'')]
       (sampleRun, asked initialWorld))) = None \<and>
   decrements (calls (snd (useLspEffect sampleServers False (Some ''/w/a.ts'') (Some ''/w'')
       (snd (steps sampleServers
          [Deactivate, StatusAnswer (Inr serverReady) True, StartAnswer (Inr ''srv-1'')]
          (sampleRun, asked initialWorld)))))) = [] \<and>
   hasIncrementedRefRef (snd (useLspEffect sampleServers False (Some ''/w/a.ts'') (Some ''/w'')
       (snd (steps sampleServers
          [Deactivate, StatusAnswer (Inr serverReady) True, StartAnswer (Inr ''srv-1'')]
          (sampleRun, asked initialWorld)))))"
  by code_simp

text \<open>
  C3, as the claim states it, fails: cleanup does not wait. The view is deactivated while
  \<open>getServerStatus\<close> is awaited. The cleanup function has run and returned, the run is
  unmounted, and the activation still stands at that \<open>await\<close>: it is neither connected
  nor failed, and when the status arrives it goes on to wait for \<open>startServer\<close>.
\<close>

theorem cleanup_while_awaiting_counterexample:
  "useLspEffect sampleServers True (Some ''/w/a.ts'') (Some ''/w'') initialWorld =
     (Some sampleRun, asked initialWorld) \<and>
   awaiting (fst (steps sampleServers [Deactivate] (sampleRun, asked initialWorld))) = AwaitStatus \<and>
   \<not> isMounted (fst (steps sampleServers [Deactivate] (sampleRun, asked initialWorld))) \<and>
   calls (snd (steps sampleServers [Deactivate] (sampleRun, asked initialWorld))) =
     [GetServerStatus ''typescript''] \<and>
   awaiting (fst (steps sampleServers [Deactivate, StatusAnswer (Inr serverReady) True]
       (sampleRun, asked initialWorld))) = AwaitStart"
  by code_simp

text \<open>
  After the cleanup function the run is unmounted. The answer that it waits for still
  moves it on, and leaves what the view shows as it is.
\<close>

lemma unmounted_status_answer:
  assumes "\<not> isMounted a" and "awaiting a = AwaitStatus"
  shows "awaiting (fst (statusArrived srv granted result a w)) \<noteq> AwaitStatus \<and>
     isConnected (snd (statusArrived srv granted result a w)) = isConnected w \<and>
     isLoading (snd (statusArrived srv granted result a w)) = isLoading w \<and>
     error (snd (statusArrived srv granted result a w)) = error w \<and>
     serverIdState (snd (statusArrived srv granted result a w)) = serverIdState w"
  using assms
  by (simp add: statusArrived_def Let_def caught_def finishTry_def connectView_def startNew_def
      call_def split: sum.splits option.splits)

lemma unmounted_start_answer:
  assumes "\<not> isMounted a" and "awaiting a = AwaitStart"
  shows "awaiting (fst (startArrived result a w)) = Finished \<and>
     isConnected (snd (startArrived result a w)) = isConnected w \<and>
     isLoading (snd (startArrived result a w)) = isLoading w \<and>
     error (snd (startArrived result a w)) = error w \<and>
     serverIdState (snd (startArrived result a w)) = serverIdState w"
  using assms
  by (simp add: startArrived_def caught_def finishTry_def connectView_def split: sum.splits)

text \<open>
  A reference that a mounted run has acquired, by reuse or by start, is released by the
  cleanup that follows: one \<open>decrementRefCount\<close> for that server, the flag cleared, and
  none when cleanup runs again.
\<close>

lemma reuse_then_cleanup:
  assumes "isMounted a" and "awaiting a = AwaitStatus" and "available status"
    and "getConnectionByRoot (actWorkspaceRoot a) (actLanguage a) (manager w) = Some conn"
    and "serverId conn \<noteq> []"
  shows "decrements (calls (snd (steps srv [StatusAnswer (Inr status) True, Deactivate] (a, w)))) =
       decrements (calls w) @ [serverId conn] \<and>
     \<not> hasIncrementedRefRef (snd (steps srv [StatusAnswer (Inr status) True, Deactivate] (a, w))) \<and>
     decrements (calls (performCleanup
         (snd (steps srv [StatusAnswer (Inr status) True, Deactivate] (a, w))))) =
       decrements (calls w) @ [serverId conn]"
  using assms
  by (simp add: steps_def statusArrived_def Let_def connectView_def finishTry_def call_def
      effectCleanup_def performCleanup_decrements performCleanup_refs decrements_append)

lemma start_then_cleanup:
  assumes "isMounted a" and "awaiting a = AwaitStart" and "sid \<noteq> []"
  shows "decrements (calls (snd (steps srv [StartAnswer (Inr sid), Deactivate] (a, w)))) =
       decrements (calls w) @ [sid] \<and>
     \<not> hasIncrementedRefRef (snd (steps srv [StartAnswer (Inr sid), Deactivate] (a, w))) \<and>
     decrements (calls (performCleanup
         (snd (steps srv [StartAnswer (Inr sid), Deactivate] (a, w))))) =
       decrements (calls w) @ [sid]"
  using assms
  by (simp add: steps_def startArrived_def connectView_def finishTry_def call_def
      effectCleanup_def performCleanup_decrements performCleanup_refs decrements_append)

text \<open>
  C3, amended: a view is deactivated while its activation is in flight and the view has
  acquired no reference yet. The cleanup function runs at once: the activation stays at
  its \<open>await\<close>, now unmounted, and cleanup issues no \<open>decrementRefCount\<close>. When the answer
  comes the activation moves on from that \<open>await\<close> and does not touch what the view
  shows. A reference that the activation acquires before the deactivation, by a granted
  \<open>incrementRefCount\<close> or by \<open>startServer\<close> (a non-empty id), is released by the cleanup
  exactly once: one \<open>decrementRefCount\<close> for that server, the flag cleared, and none when
  cleanup runs again.
\<close>

theorem cleanup_in_flight:
  assumes "isMounted a" and "awaiting a \<noteq> Finished" and "\<not> hasIncrementedRefRef w"
  shows "awaiting (fst (effectCleanup a w)) = awaiting a \<and>
     \<not> isMounted (fst (effectCleanup a w)) \<and>
     decrements (calls (snd (effectCleanup a w))) = decrements (calls w) \<and>
     (\<forall>granted result w'. awaiting a = AwaitStatus \<longrightarrow>
        awaiting (fst (statusArrived srv granted result (fst (effectCleanup a w)) w')) \<noteq> AwaitStatus \<and>
        isConnected (snd (statusArrived srv granted result (fst (effectCleanup a w)) w')) =
          isConnected w' \<and>
        isLoading (snd (statusArrived srv granted result (fst (effectCleanup a w)) w')) =
          isLoading w' \<and>
        error (snd (statusArrived srv granted result (fst (effectCleanup a w)) w')) = error w' \<and>
        serverIdState (snd (statusArrived srv granted result (fst (effectCleanup a w)) w')) =
          serverIdState w') \<and>
     (\<forall>result w'. awaiting a = AwaitStart \<longrightarrow>
        awaiting (fst (startArrived result (fst (effectCleanup a w)) w')) = Finished \<and>
        isConnected (snd (startArrived result (fst (effectCleanup a w)) w')) = isConnected w' \<and>
        isLoading (snd (startArrived result (fst (effectCleanup a w)) w')) = isLoading w' \<and>
        error (snd (startArrived result (fst (effectCleanup a w)) w')) = error w' \<and>
        serverIdState (snd (startArrived result (fst (effectCleanup a w)) w')) =
          serverIdState w') \<and>
     (\<forall>status conn.
        awaiting a = AwaitStatus \<and> available status \<and>
        getConnectionByRoot (actWorkspaceRoot a) (actLanguage a) (manager w) = Some conn \<and>
        serverId conn \<noteq> [] \<longrightarrow>
        decrements (calls (snd (steps srv [StatusAnswer (Inr status) True, Deactivate] (a, w)))) =
          decrements (calls w) @ [serverId conn] \<and>
        \<not> hasIncrementedRefRef
            (snd (steps srv [StatusAnswer (Inr status) True, Deactivate] (a, w))) \<and>
        decrements (calls (performCleanup
            (snd (steps srv [StatusAnswer (Inr status) True, Deactivate] (a, w))))) =
          decrements (calls w) @ [serverId conn]) \<and>
     (\<forall>sid. awaiting a = AwaitStart \<and> sid \<noteq> [] \<longrightarrow>
        decrements (calls (snd (steps srv [StartAnswer (Inr sid), Deactivate] (a, w)))) =
          decrements (calls w) @ [sid] \<and>
        \<not> hasIncrementedRefRef (snd (steps srv [StartAnswer (Inr sid), Deactivate] (a, w))) \<and>
        decrements (calls (performCleanup
            (snd (steps srv [StartAnswer (Inr sid), Deactivate] (a, w))))) =
          decrements (calls w) @ [sid])"
proof -
  have stays: "awaiting (fst (effectCleanup a w)) = awaiting a \<and>
      \<not> isMounted (fst (effectCleanup a w)) \<and>
      decrements (calls (snd (effectCleanup a w))) = decrements (calls w)"
    using assms(3) by (simp add: effectCleanup_def performCleanup_decrements)
  have unmounted: "\<not> isMounted (fst (effectCleanup a w))"
    "awaiting (fst (effectCleanup a w)) = awaiting a"
    by (simp_all add: effectCleanup_def)
  show ?thesis
    using stays unmounted_status_answer [OF unmounted(1)] unmounted_start_answer [OF unmounted(1)]
      reuse_then_cleanup [OF assms(1)] start_then_cleanup [OF assms(1)] unmounted(2)
    by simp
qed

theorem cleanup_in_flight_witness:
  "isMounted sampleRun \<and> awaiting sampleRun \<noteq> Finished \<and>
   \<not> hasIncrementedRefRef (asked sharedWorld) \<and>
   awaiting (fst (effectCleanup sampleRun (asked sharedWorld))) = AwaitStatus \<and>
   decrements (calls (snd (effectCleanup sampleRun (asked sharedWorld)))) = [] \<and>
   awaiting (fst (statusArrived sampleServers (\<lambda>sid. True) (Inr serverReady)
       (fst (effectCleanup sampleRun (asked sharedWorld)))
       (snd (effectCleanup sampleRun (asked sharedWorld))))) \<noteq> AwaitStatus \<and>
   decrements (calls (snd (steps sampleServers [StatusAnswer (Inr serverReady) True, Deactivate]
       (sampleRun, asked sharedWorld)))) = [''srv-1'']"
proof -
  have h1: "isMounted sampleRun" by (simp add: sampleRun_def)
  have h2: "awaiting sampleRun \<noteq> Finished" by (simp add: sampleRun_def)
  have h3: "\<not> hasIncrementedRefRef (asked sharedWorld)"
    by (simp add: asked_def sharedWorld_def initialWorld_def)
  have at: "awaiting sampleRun = AwaitStatus" by (simp add: sampleRun_def)
  have ready: "available serverReady" by (simp add: serverReady_def)
  have found: "getConnectionByRoot (actWorkspaceRoot sampleRun) (actLanguage sampleRun)
       (manager (asked sharedWorld)) =
     Some \<lparr>serverId = ''srv-1'', language = ''typescript'', rootPath = ''/w''\<rparr>"
    by code_simp
  have none: "decrements (calls (asked sharedWorld)) = []"
    by code_simp
  note in_flight = cleanup_in_flight [OF h1 h2 h3, of sampleServers]
  from in_flight have stays: "awaiting (fst (effectCleanup sampleRun (asked sharedWorld))) =
      awaiting sampleRun"
    and unchanged: "decrements (calls (snd (effectCleanup sampleRun (asked sharedWorld)))) =
      decrements (calls (asked sharedWorld))"
    by simp_all
  from in_flight at have moves: "awaiting (fst (statusArrived sampleServers (\<lambda>sid. True)
       (Inr serverReady) (fst (effectCleanup sampleRun (asked sharedWorld)))
       (snd (effectCleanup sampleRun (asked sharedWorld))))) \<noteq> AwaitStatus"
    by blast
  from in_flight at ready found have released:
    "decrements (calls (snd (steps sampleServers [StatusAnswer (Inr serverReady) True, Deactivate]
       (sampleRun, asked sharedWorld)))) = decrements (calls (asked sharedWorld)) @ [''srv-1'']"
    by force
  have nothing_issued:
    "decrements (calls (snd (effectCleanup sampleRun (asked sharedWorld)))) = []"
    by (simp only: unchanged none)
  have released_once:
    "decrements (calls (snd (steps sampleServers [StatusAnswer (Inr serverReady) True, Deactivate]
       (sampleRun, asked sharedWorld)))) = [''srv-1'']"
    by (simp only: released none append_Nil)
  from h1 h2 h3 stays moves at nothing_issued released_once show ?thesis
    by simp
qed

subsection \<open>Activation\<close>

text \<open>
  C2, as the claim states it, fails for a server whose id is the empty string. A first
  view starts a server and the service answers with the empty id; the hook registers it.
  A second view finds that connection and \<open>incrementRefCount\<close> is granted, but the hook
  takes the empty id for no server (\<open>!serverId\<close>) and calls \<open>startServer\<close>.
\<close>

theorem granted_empty_id_counterexample:
  "getConnectionByRoot ''/w'' ''typescript''
     (manager (snd (steps sampleServers [StatusAnswer (Inr serverReady) True, StartAnswer (Inr [])]
        (sampleRun\<lparr>actFilePath := ''/w/b.ts''\<rparr>, asked initialWorld)))) =
     Some \<lparr>serverId = [], language = ''typescript'', rootPath = ''/w''\<rparr> \<and>
   calls (snd (steps sampleServers [StatusAnswer (Inr serverReady) True]
     (sampleRun,
      asked (initialWorld\<lparr>manager :=
        manager (snd (steps sampleServers
          [StatusAnswer (Inr serverReady) True, StartAnswer (Inr [])]
          (sampleRun\<lparr>actFilePath := ''/w/b.ts''\<rparr>, asked initialWorld)))\<rparr>)))) =
     [GetServerStatus ''typescript'', GetConnectionByRoot ''/w'' ''typescript'',
      IncrementRefCount [], StartServer ''typescript'' ''/w''] \<and>
   awaiting (fst (steps sampleServers [StatusAnswer (Inr serverReady) True]
     (sampleRun,
      asked (initialWorld\<lparr>manager :=
        manager (snd (steps sampleServers
          [StatusAnswer (Inr serverReady) True, StartAnswer (Inr [])]
          (sampleRun\<lparr>actFilePath := ''/w/b.ts''\<rparr>, asked initialWorld)))\<rparr>)))) = AwaitStart"
  by code_simp

text \<open>
  C2, amended: the server is available and \<open>getConnectionByRoot\<close> finds a connection for
  the root and language of the view. When \<open>incrementRefCount\<close> is granted for its server
  and the id of the server is not empty, the activation ends there: the trace gains the
  lookup, the \<open>incrementRefCount\<close> and, for a mounted view, the \<open>register\<close> call with that
  server, and no \<open>startServer\<close>; the flag is set, and a mounted view is connected to
  that server. When it is refused, the hook calls \<open>unregisterServer\<close> for the stale
  server, after which \<open>getConnectionByRoot\<close> finds nothing for the root and language, no
  entry and no connection of the manager names the server, and its reference count is
  0; then the hook calls \<open>startServer\<close> for the language and root, and awaits it; the
  error of the view is untouched. Whatever id \<open>startServer\<close> then returns, the
  activation ends with the flag set, the error untouched, and a mounted view connected
  to the new server and registered with it.
\<close>

theorem reuse_or_start_fresh:
  assumes "awaiting a = AwaitStatus" and "available status"
    and "getConnectionByRoot (actWorkspaceRoot a) (actLanguage a) (manager w) = Some conn"
  shows "(incrementRefCount (serverId conn) \<and> serverId conn \<noteq> [] \<longrightarrow>
       awaiting (fst (statusArrived srv incrementRefCount (Inr status) a w)) = Finished \<and>
       calls (snd (statusArrived srv incrementRefCount (Inr status) a w)) =
         calls w @
           [GetConnectionByRoot (actWorkspaceRoot a) (actLanguage a),
            IncrementRefCount (serverId conn)] @
           (if isMounted a
            then [Register (actFilePath a) (serverId conn) (actLanguage a) (actWorkspaceRoot a)]
            else []) \<and>
       hasIncrementedRefRef (snd (statusArrived srv incrementRefCount (Inr status) a w)) \<and>
       error (snd (statusArrived srv incrementRefCount (Inr status) a w)) = error w \<and>
       (isMounted a \<longrightarrow>
          serverIdRef (snd (statusArrived srv incrementRefCount (Inr status) a w)) =
            Some (serverId conn) \<and>
          serverIdState (snd (statusArrived srv incrementRefCount (Inr status) a w)) =
            Some (serverId conn) \<and>
          isConnected (snd (statusArrived srv incrementRefCount (Inr status) a w)) \<and>
          manager (snd (statusArrived srv incrementRefCount (Inr status) a w)) =
            register (actFilePath a) (serverId conn) (actLanguage a) (actWorkspaceRoot a)
              (manager w))) \<and>
     (\<not> incrementRefCount (serverId conn) \<longrightarrow>
       awaiting (fst (statusArrived srv incrementRefCount (Inr status) a w)) = AwaitStart \<and>
       calls (snd (statusArrived srv incrementRefCount (Inr status) a w)) =
         calls w @
           [GetConnectionByRoot (actWorkspaceRoot a) (actLanguage a),
            IncrementRefCount (serverId conn), UnregisterServer (serverId conn),
            StartServer (actLanguage a) (actWorkspaceRoot a)] \<and>
       manager (snd (statusArrived srv incrementRefCount (Inr status) a w)) =
         unregisterServer (serverId conn) (manager w) \<and>
       getConnectionByRoot (actWorkspaceRoot a) (actLanguage a)
         (manager (snd (statusArrived srv incrementRefCount (Inr status) a w))) = None \<and>
       list_all (\<lambda>e. serverId (snd e) \<noteq> serverId conn)
         (serverReferences (manager (snd (statusArrived srv incrementRefCount (Inr status) a w)))) \<and>
       list_all (\<lambda>e. serverId (snd e) \<noteq> serverId conn)
         (connections (manager (snd (statusArrived srv incrementRefCount (Inr status) a w)))) \<and>
       getFileReferenceCount (serverId conn)
         (manager (snd (statusArrived srv incrementRefCount (Inr status) a w))) = 0 \<and>
       hasIncrementedRefRef (snd (statusArrived srv incrementRefCount (Inr status) a w)) =
         hasIncrementedRefRef w \<and>
       error (snd (statusArrived srv incrementRefCount (Inr status) a w)) = error w \<and>
       (\<forall>fresh w'.
          awaiting (fst (startArrived (Inr fresh)
             (fst (statusArrived srv incrementRefCount (Inr status) a w)) w')) = Finished \<and>
          error (snd (startArrived (Inr fresh)
             (fst (statusArrived srv incrementRefCount (Inr status) a w)) w')) = error w' \<and>
          hasIncrementedRefRef (snd (startArrived (Inr fresh)
             (fst (statusArrived srv incrementRefCount (Inr status) a w)) w')) \<and>
          calls (snd (startArrived (Inr fresh)
             (fst (statusArrived srv incrementRefCount (Inr status) a w)) w')) =
            calls w' @
              (if isMounted a
               then [Register (actFilePath a) fresh (actLanguage a) (actWorkspaceRoot a)]
               else []) \<and>
          (isMounted a \<longrightarrow>
             serverIdRef (snd (startArrived (Inr fresh)
                (fst (statusArrived srv incrementRefCount (Inr status) a w)) w')) = Some fresh \<and>
             isConnected (snd (startArrived (Inr fresh)
                (fst (statusArrived srv incrementRefCount (Inr status) a w)) w')) \<and>
             getConnection (actFilePath a) (manager (snd (startArrived (Inr fresh)
                (fst (statusArrived srv incrementRefCount (Inr status) a w)) w'))) =
               Some \<lparr>serverId = fresh, language = actLanguage a,
                     rootPath = actWorkspaceRoot a\<rparr>)))"
proof (cases "incrementRefCount (serverId conn)")
  case True
  with assms show ?thesis
    by (simp add: statusArrived_def Let_def connectView_def finishTry_def call_def)
next
  case False
  with assms(1,2,3) have run:
    "statusArrived srv incrementRefCount (Inr status) a w =
       startNew a
         ((call (UnregisterServer (serverId conn))
             (call (IncrementRefCount (serverId conn))
                (call (GetConnectionByRoot (actWorkspaceRoot a) (actLanguage a)) w)))
            \<lparr>manager := unregisterServer (serverId conn) (manager w)\<rparr>)"
    by (simp add: statusArrived_def Let_def call_def)
  from False unregisterServer_lookup [OF assms(3)] unregisterServer_purges [of "serverId conn" "manager w"]
    unregisterServer_count [of "serverId conn" "manager w"]
  show ?thesis
    unfolding run
    by (simp add: startNew_def startArrived_def connectView_def finishTry_def call_def
        getConnection_def register_connection)
qed

theorem reuse_or_start_fresh_witness:
  "awaiting sampleRun = AwaitStatus \<and> available serverReady \<and>
   getConnectionByRoot (actWorkspaceRoot sampleRun) (actLanguage sampleRun)
       (manager (asked sharedWorld)) =
     Some \<lparr>serverId = ''srv-1'', language = ''typescript'', rootPath = ''/w''\<rparr> \<and>
   calls (snd (statusArrived sampleServers (\<lambda>sid. False) (Inr serverReady) sampleRun
       (asked sharedWorld))) =
     calls (asked sharedWorld) @
       [GetConnectionByRoot ''/w'' ''typescript'', IncrementRefCount ''srv-1'',
        UnregisterServer ''srv-1'', StartServer ''typescript'' ''/w''] \<and>
   getConnectionByRoot ''/w'' ''typescript''
     (manager (snd (statusArrived sampleServers (\<lambda>sid. False) (Inr serverReady) sampleRun
       (asked sharedWorld)))) = None \<and>
   getFileReferenceCount ''srv-1''
     (manager (snd (statusArrived sampleServers (\<lambda>sid. False) (Inr serverReady) sampleRun
       (asked sharedWorld)))) = 0 \<and>
   calls (snd (statusArrived sampleServers (\<lambda>sid. True) (Inr serverReady) sampleRun
       (asked sharedWorld))) =
     calls (asked sharedWorld) @
       [GetConnectionByRoot ''/w'' ''typescript'', IncrementRefCount ''srv-1'',
        Register ''/w/a.ts'' ''srv-1'' ''typescript'' ''/w'']"
proof -
  have h1: "awaiting sampleRun = AwaitStatus" by (simp add: sampleRun_def)
  have h2: "available serverReady" by (simp add: serverReady_def)
  have h3: "getConnectionByRoot (actWorkspaceRoot sampleRun) (actLanguage sampleRun)
       (manager (asked sharedWorld)) =
     Some \<lparr>serverId = ''srv-1'', language = ''typescript'', rootPath = ''/w''\<rparr>"
    by code_simp
  have sel: "actWorkspaceRoot sampleRun = ''/w''" "actLanguage sampleRun = ''typescript''"
    "actFilePath sampleRun = ''/w/a.ts''" "isMounted sampleRun"
    by (simp_all add: sampleRun_def)
  have found: "getConnectionByRoot ''/w'' ''typescript'' (manager (asked sharedWorld)) =
     Some \<lparr>serverId = ''srv-1'', language = ''typescript'', rootPath = ''/w''\<rparr>"
    using h3 by (simp add: sel)
  have gone: "getConnectionByRoot ''/w'' ''typescript''
      (unregisterServer ''srv-1'' (manager (asked sharedWorld))) = None"
    using unregisterServer_lookup [OF found] by simp
  from reuse_or_start_fresh [OF h1 h2 h3, of "\<lambda>sid. False" sampleServers]
    reuse_or_start_fresh [OF h1 h2 h3, of "\<lambda>sid. True" sampleServers] h1 h2 h3 sel
  show ?thesis by (simp add: gone unregisterServer_count)
qed

text \<open>
  C7: the service answers that the server is not available. The activation ends there
  and the hook has called nothing: no \<open>startServer\<close>, no \<open>incrementRefCount\<close>, no
  download; the manager, the flag and the recorded server are untouched. When the server
  can be downloaded, the hook hands a pending download for the language to the store,
  and a mounted view shows the message that the server is not installed and can be
  installed with a click. When it cannot, the store is untouched and a mounted view shows
  the message that names the command to install (\<open>unknown\<close> when the configuration gives
  none). In both cases a mounted view stops loading; a view that has been unmounted in
  the meantime is given no message.
\<close>

theorem status_not_available:
  assumes "awaiting a = AwaitStatus" and "\<not> available status"
  shows "awaiting (fst (statusArrived srv incrementRefCount (Inr status) a w)) = Finished \<and>
     calls (snd (statusArrived srv incrementRefCount (Inr status) a w)) = calls w \<and>
     manager (snd (statusArrived srv incrementRefCount (Inr status) a w)) = manager w \<and>
     hasIncrementedRefRef (snd (statusArrived srv incrementRefCount (Inr status) a w)) =
       hasIncrementedRefRef w \<and>
     serverIdRef (snd (statusArrived srv incrementRefCount (Inr status) a w)) = serverIdRef w \<and>
     isConnected (snd (statusArrived srv incrementRefCount (Inr status) a w)) = isConnected w \<and>
     store (snd (statusArrived srv incrementRefCount (Inr status) a w)) =
       (if canDownload status
        then addPendingDownload
               \<lparr>pdLanguage = actLanguage a,
                languageDisplayName = getLanguageDisplayName srv (actLanguage a),
                serverName = orElse (map_option name (getServerConfig srv (actLanguage a)))
                               (actLanguage a),
                pdDownloadUrl = downloadUrl status\<rparr> (store w)
        else store w) \<and>
     (canDownload status \<longrightarrow>
        list_ex (\<lambda>d. pdLanguage d = actLanguage a)
          (pendingDownloads (store (snd (statusArrived srv incrementRefCount (Inr status) a w))))) \<and>
     (isMounted a \<longrightarrow>
        \<not> isLoading (snd (statusArrived srv incrementRefCount (Inr status) a w)) \<and>
        error (snd (statusArrived srv incrementRefCount (Inr status) a w)) =
          Some (if canDownload status
                then ''LSP server for '' @ getLanguageDisplayName srv (actLanguage a) @
                       '' is not installed. Click to install.''
                else ''LSP server not available. Please install: '' @
                       orElse (map_option command (getServerConfig srv (actLanguage a)))
                         ''unknown'')) \<and>
     (\<not> isMounted a \<longrightarrow>
        error (snd (statusArrived srv incrementRefCount (Inr status) a w)) = error w \<and>
        isLoading (snd (statusArrived srv incrementRefCount (Inr status) a w)) = isLoading w)"
  using assms
  by (simp add: statusArrived_def Let_def finishTry_def notInstalledClick_def pleaseInstall_def
      addPendingDownload_def list_ex_iff)

theorem status_not_available_witness:
  "awaiting sampleRun = AwaitStatus \<and>
   \<not> available \<lparr>available = False, canDownload = False, downloadUrl = None\<rparr> \<and>
   isMounted sampleRun \<and>
   calls (snd (statusArrived sampleServers (\<lambda>sid. True)
       (Inr \<lparr>available = False, canDownload = False, downloadUrl = None\<rparr>) sampleRun
       (asked initialWorld))) = calls (asked initialWorld) \<and>
   error (snd (statusArrived sampleServers (\<lambda>sid. True)
       (Inr \<lparr>available = False, canDownload = False, downloadUrl = None\<rparr>) sampleRun
       (asked initialWorld))) =
     Some ''LSP server not available. Please install: typescript-language-server'' \<and>
   error (snd (statusArrived sampleServers (\<lambda>sid. True)
       (Inr \<lparr>available = False, canDownload = True, downloadUrl = None\<rparr>) sampleRun
       (asked initialWorld))) =
     Some ''LSP server for TypeScript is not installed. Click to install.'' \<and>
   list_ex (\<lambda>d. pdLanguage d = ''typescript'')
     (pendingDownloads (store (snd (statusArrived sampleServers (\<lambda>sid. True)
       (Inr \<lparr>available = False, canDownload = True, downloadUrl = None\<rparr>) sampleRun
       (asked initialWorld)))))"
proof -
  have h1: "awaiting sampleRun = AwaitStatus" by (simp add: sampleRun_def)
  have sel: "actLanguage sampleRun = ''typescript''" "isMounted sampleRun"
    by (simp_all add: sampleRun_def)
  have cfg: "orElse (map_option command (getServerConfig sampleServers ''typescript'')) ''unknown''
      = ''typescript-language-server''"
    "getLanguageDisplayName sampleServers ''typescript'' = ''TypeScript''"
    by (simp_all add: sampleServers_def orElse_def)
  from status_not_available [OF h1, of "\<lparr>available = False, canDownload = False, downloadUrl = None\<rparr>"
      sampleServers "\<lambda>sid. True" "asked initialWorld"]
    status_not_available [OF h1, of "\<lparr>available = False, canDownload = True, downloadUrl = None\<rparr>"
      sampleServers "\<lambda>sid. True" "asked initialWorld"] h1 sel cfg
  show ?thesis
    by (simp add: addPendingDownload_def asked_def initialWorld_def initialLspState_def)
qed

subsection \<open>Diagnostics\<close>

text \<open>
  The handler writes every event to the store of the diagnostics before it looks at the
  editor.
\<close>

lemma onDiagnostics_store:
  "snd (onDiagnostics proto srv enabledOption ed filePath uri diagnostics w) =
     (if enabledOption \<and> enabled (store w)
      then w\<lparr>store := setDiagnostics proto uri diagnostics (store w)\<rparr>
      else w)"
  by (simp add: onDiagnostics_def Let_def)

text \<open>
  C8, as the claim states it, fails: the event is not discarded. The view shows a Python
  file while its connection is still the TypeScript one; an event with one error arrives
  for the file. No marker is set, but the handler has given the event to the store, which
  now holds the diagnostic and counts one error.
\<close>

theorem stale_event_stored_counterexample:
  "getLanguageIdForPath sampleServers (uriPath ''file:///w/a.py'') = Some ''python'' \<and>
   languageRef (initialWorld\<lparr>languageRef := Some ''typescript''\<rparr>) = Some ''typescript'' \<and>
   fst (onDiagnostics sampleProtocol sampleServers True allPresent (Some ''/w/a.py'')
          ''file:///w/a.py'' [sampleDiagnostic]
          (initialWorld\<lparr>languageRef := Some ''typescript''\<rparr>)) = None \<and>
   diagnosticsCounts (store (initialWorld\<lparr>languageRef := Some ''typescript''\<rparr>)) =
     \<lparr>errors = 0, warnings = 0, info = 0, hints = 0\<rparr> \<and>
   diagnosticsCounts (store (snd (onDiagnostics sampleProtocol sampleServers True allPresent
          (Some ''/w/a.py'') ''file:///w/a.py'' [sampleDiagnostic]
          (initialWorld\<lparr>languageRef := Some ''typescript''\<rparr>)))) =
     \<lparr>errors = 1, warnings = 0, info = 0, hints = 0\<rparr> \<and>
   map ldMessage (getDiagnostics ''/w/a.py''
       (store (snd (onDiagnostics sampleProtocol sampleServers True allPresent
          (Some ''/w/a.py'') ''file:///w/a.py'' [sampleDiagnostic]
          (initialWorld\<lparr>languageRef := Some ''typescript''\<rparr>))))) = [''unused variable'']"
  by code_simp

text \<open>
  C8, amended: when the language of the file of a diagnostics event and the language of
  the current connection of the view are both set and differ, the handler returns
  without calling \<open>setModelMarkers\<close>, so no marker of the event reaches the editor; the
  event is kept all the same, for the handler of an enabled hook has given it to
  \<open>setDiagnostics\<close> of the store before the test, and that is all it has done.
\<close>

theorem stale_language_not_applied:
  assumes "getLanguageIdForPath srv (uriPath uri) = Some eventLang"
    and "languageRef w = Some currentLang"
    and "eventLang \<noteq> []" and "currentLang \<noteq> []" and "eventLang \<noteq> currentLang"
  shows "fst (onDiagnostics proto srv enabledOption ed filePath uri diagnostics w) = None \<and>
     snd (onDiagnostics proto srv enabledOption ed filePath uri diagnostics w) =
       (if enabledOption \<and> enabled (store w)
        then w\<lparr>store := setDiagnostics proto uri diagnostics (store w)\<rparr>
        else w)"
  using assms by (simp add: onDiagnostics_def Let_def)

theorem stale_language_not_applied_witness:
  "getLanguageIdForPath sampleServers (uriPath ''file:///w/a.py'') = Some ''python'' \<and>
   languageRef (initialWorld\<lparr>languageRef := Some ''typescript''\<rparr>) = Some ''typescript'' \<and>
   fst (onDiagnostics sampleProtocol sampleServers True allPresent (Some ''/w/a.py'')
          ''file:///w/a.py'' [sampleDiagnostic]
          (initialWorld\<lparr>languageRef := Some ''typescript''\<rparr>)) = None \<and>
   snd (onDiagnostics sampleProtocol sampleServers True allPresent (Some ''/w/a.py'')
          ''file:///w/a.py'' [sampleDiagnostic]
          (initialWorld\<lparr>languageRef := Some ''typescript''\<rparr>)) =
     initialWorld\<lparr>languageRef := Some ''typescript'',
       store := setDiagnostics sampleProtocol ''file:///w/a.py'' [sampleDiagnostic]
                  initialLspState\<rparr>"
proof -
  have h1: "getLanguageIdForPath sampleServers (uriPath ''file:///w/a.py'') = Some ''python''"
    by code_simp
  have h2: "languageRef (initialWorld\<lparr>languageRef := Some ''typescript''\<rparr>) = Some ''typescript''"
    by simp
  have h3: "''python'' \<noteq> []" "''typescript'' \<noteq> []" "''python'' \<noteq> ''typescript''"
    by simp_all
  have on: "enabled (store (initialWorld\<lparr>languageRef := Some ''typescript''\<rparr>))"
    "store (initialWorld\<lparr>languageRef := Some ''typescript''\<rparr>) = initialLspState"
    by (simp_all add: initialWorld_def initialLspState_def)
  from stale_language_not_applied [OF h1 h2 h3, of sampleProtocol True allPresent
      "Some ''/w/a.py''" "[sampleDiagnostic]"] h1 h2 on
  show ?thesis by simp
qed

text \<open>An event in the language of the connection does reach the editor.\<close>

lemma same_language_applied:
  "fst (onDiagnostics sampleProtocol sampleServers True allPresent (Some ''/w/a.py'')
          ''file:///w/a.py'' [sampleDiagnostic]
          (initialWorld\<lparr>languageRef := Some ''python''\<rparr>)) =
     Some [\<lparr>mkSeverity = MarkerError, mkMessage = ''unused variable'', startLineNumber = 1,
            startColumn = 5, endLineNumber = 1, endColumn = 10, mkSource = ''python'',
            mkCode = None\<rparr>]"
  by code_simp

subsection \<open>Opening a document\<close>

lemma opensOf_append: "opensOf f (xs @ ys) = opensOf f xs + opensOf f ys"
  by (induction f xs rule: opensOf.induct) simp_all

lemma openDocument_again:
  "fst (openDocument srv filePath content None w) = None \<Longrightarrow>
   openDocument srv filePath content' reply (snd (openDocument srv filePath content None w)) =
     (None, snd (openDocument srv filePath content None w))"
  by (auto simp: openDocument_def Let_def call_def split: if_splits)

lemma openDocument_opens:
  "opensOf f (calls (snd (openDocument srv filePath content None w))) \<le> opensOf f (calls w) + 1"
  by (simp add: openDocument_def Let_def call_def opensOf_append)

lemma openDocument_stays:
  "isDocumentOpenRef w \<Longrightarrow> filePathRef w = filePath \<Longrightarrow>
   snd (openDocument srv filePath content reply w) = w"
  by (simp add: openDocument_def Let_def)

lemma openDocument_sets:
  "snd (openDocument srv filePath content None w) \<noteq> w \<Longrightarrow>
   isDocumentOpenRef (snd (openDocument srv filePath content None w)) \<and>
   filePathRef (snd (openDocument srv filePath content None w)) = filePath"
  by (auto simp: openDocument_def Let_def call_def split: if_splits)

lemma openMany_unchanged:
  "isDocumentOpenRef w \<Longrightarrow> filePathRef w = filePath \<Longrightarrow> openMany srv filePath contents w = w"
  by (induction contents) (simp_all add: openMany_def openDocument_stays)

lemma openMany_opens:
  "opensOf f (calls (openMany srv filePath contents w)) \<le> opensOf f (calls w) + 1"
proof (induction contents arbitrary: w)
  case Nil
  then show ?case by (simp add: openMany_def)
next
  case (Cons c cs)
  let ?w1 = "snd (openDocument srv filePath c None w)"
  have unfold: "openMany srv filePath (c # cs) w = openMany srv filePath cs ?w1"
    by (simp add: openMany_def)
  show ?case
  proof (cases "?w1 = w")
    case True
    with Cons.IH [of w] unfold show ?thesis by simp
  next
    case False
    then have "openMany srv filePath cs ?w1 = ?w1"
      using openDocument_sets openMany_unchanged by blast
    with unfold openDocument_opens [of f srv filePath c w] show ?thesis by simp
  qed
qed

text \<open>
  C10: when the document is open (the flag is set) and the recorded file is the file of
  the view, \<open>openDocument\<close> leaves the state and the trace as they are, so it sends
  nothing, and for a connected view it returns without an error. So a call that follows
  a call which has returned without an error changes nothing. Over any number of calls
  for the file that resolve one after the other, at most one open notification is sent.
\<close>

theorem open_document_once:
  "(isDocumentOpenRef w \<and> filePathRef w = filePath \<longrightarrow>
      snd (openDocument srv filePath content reply w) = w \<and>
      (truthy (serverIdRef w) \<and> truthy filePath \<and> truthy (languageRef w) \<longrightarrow>
         fst (openDocument srv filePath content reply w) = None)) \<and>
   (fst (openDocument srv filePath content None w) = None \<longrightarrow>
      openDocument srv filePath content' reply (snd (openDocument srv filePath content None w)) =
        (None, snd (openDocument srv filePath content None w))) \<and>
   opensOf f (calls (openMany srv filePath contents w)) \<le> opensOf f (calls w) + 1"
  using openDocument_again [of srv filePath content w content' reply]
    openMany_opens [of f srv filePath contents w]
  by (simp add: openDocument_stays) (simp add: openDocument_def)

theorem open_document_once_witness:
  "isDocumentOpenRef
     (snd (openDocument sampleServers (Some ''/w/a.ts'') ''let x = 1'' None
        (initialWorld\<lparr>serverIdRef := Some ''srv-1'', languageRef := Some ''typescript''\<rparr>))) \<and>
   filePathRef
     (snd (openDocument sampleServers (Some ''/w/a.ts'') ''let x = 1'' None
        (initialWorld\<lparr>serverIdRef := Some ''srv-1'', languageRef := Some ''typescript''\<rparr>))) =
     Some ''/w/a.ts'' \<and>
   fst (openDocument sampleServers (Some ''/w/a.ts'') ''let x = 1'' None
        (initialWorld\<lparr>serverIdRef := Some ''srv-1'', languageRef := Some ''typescript''\<rparr>)) = None \<and>
   calls (snd (openDocument sampleServers (Some ''/w/a.ts'') ''let x = 2'' None
        (snd (openDocument sampleServers (Some ''/w/a.ts'') ''let x = 1'' None
           (initialWorld\<lparr>serverIdRef := Some ''srv-1'', languageRef := Some ''typescript''\<rparr>))))) =
     [OpenDocument ''srv-1'' ''/w/a.ts'' ''typescript'' ''let x = 1'']"
proof -
  let ?w = "initialWorld\<lparr>serverIdRef := Some ''srv-1'', languageRef := Some ''typescript''\<rparr>"
  let ?w1 = "snd (openDocument sampleServers (Some ''/w/a.ts'') ''let x = 1'' None ?w)"
  have trace: "calls ?w1 = [OpenDocument ''srv-1'' ''/w/a.ts'' ''typescript'' ''let x = 1'']"
    by code_simp
  have opened: "isDocumentOpenRef ?w1 \<and> filePathRef ?w1 = Some ''/w/a.ts''"
    by code_simp
  have resolved: "fst (openDocument sampleServers (Some ''/w/a.ts'') ''let x = 1'' None ?w) = None"
    by code_simp
  from opened open_document_once [of ?w1 "Some ''/w/a.ts''" sampleServers "''let x = 2''" None]
  have "snd (openDocument sampleServers (Some ''/w/a.ts'') ''let x = 2'' None ?w1) = ?w1"
    by simp
  with trace opened resolved show ?thesis by simp
qed

end
